theory Spec2Isabelle
  imports Complex_Main
begin

section \<open>Python values and library functions used by the scripts\<close>

text \<open>
  The repository consists of \<^verbatim>\<open>utils.py\<close>, \<^verbatim>\<open>open_system_vtl_immutable.py\<close> (the
  lock-apply workflow, class \<^verbatim>\<open>OpenSystem\<close>) and \<^verbatim>\<open>open_system_vtl_reset.py\<close> (the
  reclaim workflow, class \<^verbatim>\<open>OpenSystemVTLReset\<close>). Exceptions are values of
  \<open>py_error\<close>; a function that can raise returns \<open>py_error + 'a\<close> with \<open>Inl\<close> the
  exception.
\<close>

datatype py_error =
  ValueError | IndexError | AttributeError | TypeError | CalledProcessError | OSError
  | BrokenPipeError

text \<open>A value read from the YAML configuration document (\<^verbatim>\<open>data.get(key)\<close>).\<close>

datatype yaml = YNone | YBool bool | YInt int | YFloat rat | YStr string

subsection \<open>Strings\<close>

text \<open>
  Strings are lists of 8-bit characters. \<open>is_space\<close> is \<^verbatim>\<open>str.isspace\<close> on the code
  points below 256.
\<close>

definition is_space :: "char \<Rightarrow> bool" where
  "is_space c = ((of_char c :: nat) \<in> {9, 10, 11, 12, 13, 28, 29, 30, 31, 32, 133, 160})"

text \<open>\<^verbatim>\<open>s.strip()\<close>\<close>

definition strip :: "string \<Rightarrow> string" where
  "strip s = rev (dropWhile is_space (rev (dropWhile is_space s)))"

text \<open>\<^verbatim>\<open>s.split()\<close>: the maximal runs of non-whitespace characters.\<close>

fun split_ws_aux :: "string \<Rightarrow> string \<Rightarrow> string list" where
  "split_ws_aux cur [] = (if cur = [] then [] else [rev cur])"
| "split_ws_aux cur (c # cs) =
     (if is_space c
      then (if cur = [] then split_ws_aux [] cs else rev cur # split_ws_aux [] cs)
      else split_ws_aux (c # cur) cs)"

definition split_ws :: "string \<Rightarrow> string list" where
  "split_ws s = split_ws_aux [] s"

text \<open>
  \<^verbatim>\<open>s.split(sep)\<close> for a non-empty separator: the text is cut at every occurrence of
  \<open>sep\<close> found scanning from the left, occurrences not overlapping. The result is
  never the empty list.
\<close>

function split_on :: "string \<Rightarrow> string \<Rightarrow> string list" where
  "split_on sep [] = [[]]"
| "split_on sep (c # cs) =
     (if sep \<noteq> [] \<and> take (length sep) (c # cs) = sep
      then [] # split_on sep (drop (length sep) (c # cs))
      else (case split_on sep cs of
              [] \<Rightarrow> [[c]]
            | w # ws \<Rightarrow> (c # w) # ws))"
  by pat_completeness auto
termination
  by (relation "measure (\<lambda>(sep, s). length s)") auto

text \<open>\<^verbatim>\<open>sub in s\<close> for strings.\<close>

fun contains :: "string \<Rightarrow> string \<Rightarrow> bool" where
  "contains sub [] = (sub = [])"
| "contains sub (c # cs) = (take (length sub) (c # cs) = sub \<or> contains sub cs)"

text \<open>
  \<^verbatim>\<open>s.upper()\<close>: the ASCII letters are mapped to upper case. The other 8-bit
  characters are left as they are; none of them is mapped by Python to a letter of a
  unit name.
\<close>

definition upper_char :: "char \<Rightarrow> char" where
  "upper_char c =
     (case map_of (zip ''abcdefghijklmnopqrstuvwxyz'' ''ABCDEFGHIJKLMNOPQRSTUVWXYZ'') c of
        None \<Rightarrow> c
      | Some u \<Rightarrow> u)"

definition upper :: "string \<Rightarrow> string" where
  "upper s = map upper_char s"

text \<open>\<^verbatim>\<open>s.count('-', 0, 2)\<close>: the hyphens among the first two characters.\<close>

definition count_hyphen_0_2 :: "string \<Rightarrow> nat" where
  "count_hyphen_0_2 s = length (filter (\<lambda>c. c = CHR ''-'') (take 2 s))"

text \<open>\<^verbatim>\<open>str(n)\<close> for an integer.\<close>

definition digit_char :: "nat \<Rightarrow> char" where
  "digit_char d = ''0123456789'' ! d"

fun str_nat :: "nat \<Rightarrow> string" where
  "str_nat n = (if n < 10 then [digit_char n] else str_nat (n div 10) @ [digit_char (n mod 10)])"

declare str_nat.simps [simp del]

definition str_int :: "int \<Rightarrow> string" where
  "str_int i = (if i < 0 then CHR ''-'' # str_nat (nat (- i)) else str_nat (nat i))"

subsection \<open>Dates and times\<close>

text \<open>
  A \<^verbatim>\<open>datetime\<close> object, as its proleptic Gregorian day number (what
  \<^verbatim>\<open>toordinal()\<close> returns: the calendar date) and its time of day.
\<close>

record datetime =
  dt_ordinal :: int
  dt_hour :: nat
  dt_minute :: nat
  dt_second :: nat
  dt_microsecond :: nat

text \<open>\<^verbatim>\<open>d.replace(hour=0, minute=0, second=0, microsecond=0)\<close>\<close>

definition midnight :: "datetime \<Rightarrow> datetime" where
  "midnight d = d\<lparr>dt_hour := 0, dt_minute := 0, dt_second := 0, dt_microsecond := 0\<rparr>"

text \<open>
  \<^verbatim>\<open>d.timestamp()\<close> in seconds, for a local time zone with a fixed offset (taken as
  UTC; day 719163 is 1970-01-01). The scripts only compare timestamps of the same
  zone with each other.
\<close>

definition timestamp :: "datetime \<Rightarrow> rat" where
  "timestamp d =
     of_int ((dt_ordinal d - 719163) * 86400
             + int (dt_hour d) * 3600 + int (dt_minute d) * 60 + int (dt_second d))
     + of_nat (dt_microsecond d) / 1000000"

text \<open>\<^verbatim>\<open>int(x)\<close> for a number: truncation towards zero.\<close>

definition py_int_of :: "rat \<Rightarrow> int" where
  "py_int_of x = (if 0 \<le> x then \<lfloor>x\<rfloor> else \<lceil>x\<rceil>)"

text \<open>\<^verbatim>\<open>d - timedelta(1)\<close>: the same time of day one calendar day earlier.\<close>

definition minus_one_day :: "datetime \<Rightarrow> datetime" where
  "minus_one_day d = d\<lparr>dt_ordinal := dt_ordinal d - 1\<rparr>"

text \<open>
  \<^verbatim>\<open>datetime.strptime(d.strftime(f), f)\<close> for \<^verbatim>\<open>f = '%Y/%m/%d %H:%M:%S'\<close>: the format
  prints every field but the microseconds, so printing and reading back drops them.
\<close>

definition strftime_strptime :: "datetime \<Rightarrow> datetime" where
  "strftime_strptime d = d\<lparr>dt_microsecond := 0\<rparr>"

text \<open>The two format strings the scripts pass to \<^verbatim>\<open>datetime.strptime\<close>.\<close>

definition tape_time_format :: string where
  "tape_time_format = ''%Y/%m/%d %H:%M:%S''"

definition placement_time_format :: string where
  "placement_time_format = ''%a %b %d %H:%M:%S %Y''"

subsection \<open>The world outside the scripts\<close>

text \<open>
  What the SSH channel does with a command (\<^verbatim>\<open>paramiko\<close>): it raises, or it returns the
  standard output and the standard error of the command.
\<close>

datatype ssh_raw = SshRaised | SshDone string string

text \<open>
  What \<^verbatim>\<open>subprocess.run\<close> meets: an exception is raised while the process is started,
  or the process runs to completion with its standard output, standard error and exit
  status.
\<close>

datatype proc_outcome = ProcRaised py_error | ProcDone string string int

text \<open>
  What \<^verbatim>\<open>run_nsrmm_command\<close> meets when it starts a process with \<^verbatim>\<open>subprocess.Popen\<close>,
  sleeps 50 seconds and then writes the confirmation \<^verbatim>\<open>y\<close> to the standard input of
  the process: \<^verbatim>\<open>Popen\<close> raises; or the process has already exited when the
  confirmation is written (with what it wrote to its standard output and standard
  error, and its exit status), and the pipe is broken; or the process is still running
  then, and after that runs to completion with its standard output, standard error and
  exit status.
\<close>

datatype popen_outcome =
  PopenRaised py_error | ExitedEarly string string int | Completed string string int

text \<open>
  The library functions and the environment the scripts call. \<open>py_float\<close> and \<open>py_int\<close>
  are \<^verbatim>\<open>float(s)\<close> and \<^verbatim>\<open>int(s)\<close> (\<open>None\<close>: ValueError; floats are taken as exact
  rationals, without rounding, infinities or NaN), \<open>strptime\<close> is
  \<^verbatim>\<open>datetime.strptime(text, format)\<close> (\<open>None\<close>: ValueError),
  \<open>now\<close> is \<^verbatim>\<open>datetime.now()\<close>, \<open>ssh_exec\<close> is the SSH channel, \<open>subprocess\<close> the
  process that \<^verbatim>\<open>subprocess.run\<close> starts from an argument vector, and \<open>popen\<close> the
  process that \<^verbatim>\<open>subprocess.Popen\<close> starts from one.
\<close>

record world =
  py_float :: "string \<Rightarrow> rat option"
  py_int :: "string \<Rightarrow> int option"
  strptime :: "string \<Rightarrow> string \<Rightarrow> datetime option"
  now :: datetime
  ssh_exec :: "string \<Rightarrow> ssh_raw"
  subprocess :: "string list \<Rightarrow> proc_outcome"
  popen :: "string list \<Rightarrow> popen_outcome"

section \<open>utils.py\<close>

text \<open>
  \<^verbatim>\<open>execute_ssh_command(command, instance, user, password)\<close> returns \<^verbatim>\<open>False\<close> or the
  stripped output text.
\<close>

datatype ssh_result = SshFalse | SshOutput string

definition execute_ssh_command :: "world \<Rightarrow> string \<Rightarrow> ssh_result" where
  "execute_ssh_command W command =
     (case ssh_exec W command of
        SshRaised \<Rightarrow> SshFalse
      | SshDone out err \<Rightarrow> (if strip err \<noteq> [] then SshFalse else SshOutput (strip out)))"

text \<open>\<^verbatim>\<open>not pool_data\<close> for a result of \<^verbatim>\<open>execute_ssh_command\<close>.\<close>

fun ssh_falsy :: "ssh_result \<Rightarrow> bool" where
  "ssh_falsy SshFalse = True"
| "ssh_falsy (SshOutput s) = (s = [])"

text \<open>\<^verbatim>\<open>size_to_bytes(size_str)\<close>\<close>

definition size_to_bytes :: "world \<Rightarrow> string \<Rightarrow> py_error + rat" where
  "size_to_bytes W size_str =
     (case split_ws (strip size_str) of
        [size_value, size_unit] \<Rightarrow>
          (case py_float W size_value of
             None \<Rightarrow> Inl ValueError
           | Some v \<Rightarrow>
               (let u = upper size_unit in
                if u = ''B'' then Inr v
                else if u = ''KB'' then Inr (v * 1024)
                else if u = ''MB'' \<or> u = ''MIB'' then Inr (v * 1024 * 1024)
                else if u = ''GB'' \<or> u = ''GIB'' then Inr (v * 1024 * 1024 * 1024)
                else if u = ''TB'' \<or> u = ''TIB'' then Inr (v * 1024 * 1024 * 1024 * 1024)
                else Inl ValueError))
      | _ \<Rightarrow> Inl ValueError)"

text \<open>
  The unit table as the specification words it: B, KB times 1024, MB and MiB times
  \<open>2^20\<close>, GB and GiB times \<open>2^30\<close>, TB and TiB times \<open>2^40\<close>, compared without regard
  to case.
\<close>

definition spec_unit_table :: "(string \<times> rat) list" where
  "spec_unit_table =
     [(''B'', 1), (''KB'', 1024), (''MB'', 2 ^ 20), (''MIB'', 2 ^ 20),
      (''GB'', 2 ^ 30), (''GIB'', 2 ^ 30), (''TB'', 2 ^ 40), (''TIB'', 2 ^ 40)]"

text \<open>
  \<^verbatim>\<open>run_nsrmm_command(command)\<close>. The only \<^verbatim>\<open>except\<close> clause catches
  CalledProcessError. When the process has already exited, \<^verbatim>\<open>process.stdin.flush()\<close>
  raises BrokenPipeError, which is not caught. When the process takes the confirmation
  and completes, what it wrote to its standard error is logged and the function
  returns \<^verbatim>\<open>True\<close>, whatever the exit status.
\<close>

definition run_nsrmm_command :: "world \<Rightarrow> string list \<Rightarrow> py_error + bool" where
  "run_nsrmm_command W command =
     (case popen W command of
        PopenRaised e \<Rightarrow> (if e = CalledProcessError then Inr False else Inl e)
      | ExitedEarly out err rc \<Rightarrow> Inl BrokenPipeError
      | Completed out err rc \<Rightarrow> Inr True)"

text \<open>
  \<^verbatim>\<open>run_nsrjb_command(command)\<close>: \<^verbatim>\<open>subprocess.run(..., check=True)\<close> raises
  CalledProcessError on a non-zero exit status.
\<close>

definition run_nsrjb_command :: "world \<Rightarrow> string list \<Rightarrow> py_error + bool" where
  "run_nsrjb_command W command =
     (case subprocess W command of
        ProcDone out err rc \<Rightarrow> Inr (rc = 0)
      | ProcRaised e \<Rightarrow> (if e = CalledProcessError then Inr False else Inl e))"

section \<open>open\_system\_vtl\_immutable.py: the lock-apply workflow\<close>

text \<open>
  The dictionaries built from a line of a tape listing. The key \<^verbatim>\<open>"size"\<close> is the
  field \<open>tape_size\<close>. The lock-apply workflow adds \<^verbatim>\<open>"used"\<close> and
  \<^verbatim>\<open>"modification_time"\<close>, the reclaim workflow \<^verbatim>\<open>"retention_time"\<close>.
\<close>

record tape_base =
  barcode :: string
  pool_name :: string
  location :: string
  state :: string
  tape_size :: string

record tape_info = tape_base +
  used :: string
  modification_time :: string

record rl_tape_info = tape_base +
  retention_time :: string

text \<open>The dictionaries of \<^verbatim>\<open>format_tape_data\<close> (no location).\<close>

record formatted_tape =
  f_barcode :: string
  f_pool_name :: string
  f_state :: string
  f_size :: string
  f_used :: string
  f_modification_time :: string

text \<open>An entry of \<^verbatim>\<open>self.report\<close>; the key \<^verbatim>\<open>"size"\<close> is the field \<open>file_size\<close>.\<close>

record placement =
  file_name :: string
  file_size :: string
  placement_time :: string

text \<open>The attributes both classes have, and those of \<^verbatim>\<open>OpenSystem\<close>.\<close>

record vtl_base =
  pool :: string

record open_system = vtl_base +
  mechanism :: yaml
  pool_retention_lock_enabled :: bool
  tape_list :: "tape_info list"
  report :: "placement list"
  retention_lock_period_for_tapes_in_days :: yaml
  retention_lock_period_for_tapes_for_monthly_in_years :: yaml
  minimum_retention_lock_period_daily_backup_in_days :: yaml
  maximum_retention_lock_period_daily_backup_in_days :: yaml
  minimum_retention_lock_period_monthly_backup_in_days :: yaml
  maximum_retention_lock_period_monthly_backup_in_years :: yaml
  minimum_tape_usage :: yaml

text \<open>
  \<^verbatim>\<open>x is not None and isinstance(x, int) and x > 0\<close>. A Python \<^verbatim>\<open>bool\<close> is an
  \<^verbatim>\<open>int\<close>, and \<^verbatim>\<open>True > 0\<close>.
\<close>

fun positive_int :: "yaml \<Rightarrow> bool" where
  "positive_int (YInt n) = (0 < n)"
| "positive_int (YBool b) = b"
| "positive_int v = False"

text \<open>\<^verbatim>\<open>str(x)\<close> for a value that passed \<open>positive_int\<close>.\<close>

fun py_str :: "yaml \<Rightarrow> string" where
  "py_str (YInt n) = str_int n"
| "py_str (YBool b) = (if b then ''True'' else ''False'')"
| "py_str (YStr s) = s"
| "py_str v = ''None''"

text \<open>\<^verbatim>\<open>x == k\<close> for an integer literal \<open>k\<close>.\<close>

fun py_eq_int :: "yaml \<Rightarrow> int \<Rightarrow> bool" where
  "py_eq_int (YInt n) k = (n = k)"
| "py_eq_int (YBool b) k = ((if b then 1 else 0) = k)"
| "py_eq_int (YFloat r) k = (r = of_int k)"
| "py_eq_int v k = False"

text \<open>
  The list \<^verbatim>\<open>heading\<close> of \<^verbatim>\<open>get_tapes\<close>. The source has no comma after
  \<^verbatim>\<open>'Average Compression:'\<close>, so Python joins it with the next literal.
\<close>

definition heading :: "string list" where
  "heading =
     [''Processing tapes....'', ''Barcode'', ''Pool'', ''Location'', ''State'', ''Size'',
      ''Used (%)'', ''Comp'', ''Modification Time'',
      ''Total size of tapes:'', ''Total pools:'', ''Total number of tapes:'',
      ''Average Compression:--------'',
      '' --------------------'', '' -----------------------'', '' -----'', '' --------'',
      '' ----------------'', '' ----'', '' -------------------'']"

text \<open>
  \<^verbatim>\<open>check_usage_in_report(tape_info)\<close>. Every exception is caught and logged, and the
  method then returns \<^verbatim>\<open>None\<close> (here \<open>None\<close>). \<^verbatim>\<open>size_to_bytes\<close> of a configuration
  value that is not a string raises AttributeError at \<^verbatim>\<open>.strip()\<close>.
\<close>

definition check_usage_in_report :: "world \<Rightarrow> open_system \<Rightarrow> tape_info \<Rightarrow> bool option" where
  "check_usage_in_report W self tape_info =
     (case find (\<lambda>tape. contains (barcode tape_info) (file_name tape)) (report self) of
        None \<Rightarrow> Some False
      | Some tape_report_data \<Rightarrow>
          (case (case minimum_tape_usage self of
                   YStr reference_size_gb \<Rightarrow> size_to_bytes W reference_size_gb
                 | _ \<Rightarrow> Inl AttributeError) of
             Inl e \<Rightarrow> None
           | Inr reference_size_in_bytes \<Rightarrow>
               (case size_to_bytes W (file_size tape_report_data) of
                  Inl e \<Rightarrow> None
                | Inr file_size_in_bytes \<Rightarrow>
                    (if file_size_in_bytes > reference_size_in_bytes
                     then (case strptime W (modification_time tape_info) tape_time_format of
                             None \<Rightarrow> None
                           | Some modified_date \<Rightarrow>
                               (case strptime W (placement_time tape_report_data)
                                       placement_time_format of
                                  None \<Rightarrow> None
                                | Some report_placement_time \<Rightarrow>
                                    (if py_int_of (timestamp (midnight modified_date))
                                        = py_int_of (timestamp (midnight report_placement_time))
                                     then Some True
                                     else Some True)))
                     else Some False))))"

text \<open>\<^verbatim>\<open>check_used(tape_info)\<close>\<close>

definition check_used :: "world \<Rightarrow> open_system \<Rightarrow> tape_info \<Rightarrow> py_error + bool" where
  "check_used W self tape_info =
     (case split_ws (used tape_info) of
        [] \<Rightarrow> Inl IndexError
      | u # rest \<Rightarrow>
          (case py_float W u of
             None \<Rightarrow> Inl ValueError
           | Some x \<Rightarrow>
               (let check_usage = check_usage_in_report W self tape_info
                in if 0 < x \<or> check_usage = Some True then Inr True else Inr False)))"

text \<open>\<^verbatim>\<open>OpenSystem.check_state(tape_info)\<close>: true when the tape is not locked.\<close>

definition check_state :: "tape_info \<Rightarrow> bool" where
  "check_state tape_info = (if contains ''RL'' (strip (state tape_info)) then False else True)"

text \<open>
  \<^verbatim>\<open>check_modification_date(tape_info, mechanism)\<close>. The two calls of
  \<^verbatim>\<open>datetime.now()\<close> are taken at the same instant.
\<close>

definition check_modification_date :: "world \<Rightarrow> tape_info \<Rightarrow> yaml \<Rightarrow> py_error + bool" where
  "check_modification_date W tape_info mech =
     (case strptime W (modification_time tape_info) tape_time_format of
        None \<Rightarrow> Inl ValueError
      | Some modified_date \<Rightarrow>
          (let modified_date_timestamp = py_int_of (timestamp (midnight modified_date));
               current_date_epoch_timestamp = py_int_of (timestamp (midnight (now W)));
               dt_object = strftime_strptime (minus_one_day (now W));
               yesterday_epoch_timestamp = py_int_of (timestamp (midnight dt_object))
           in if current_date_epoch_timestamp = modified_date_timestamp \<and> py_eq_int mech 1
              then Inr True
              else if yesterday_epoch_timestamp = modified_date_timestamp \<and> py_eq_int mech 2
              then Inr True
              else Inr False))"

text \<open>
  The loop of \<^verbatim>\<open>get_tapes\<close> over the lines of the listing. The result is the list
  accumulated and the exception that ended the loop, if any (the \<^verbatim>\<open>except\<close> clause
  logs it and the method goes on with the list).
\<close>

fun get_tapes_loop ::
  "world \<Rightarrow> open_system \<Rightarrow> string list \<Rightarrow> tape_info list \<Rightarrow> tape_info list \<times> py_error option"
where
  "get_tapes_loop W self [] acc = (acc, None)"
| "get_tapes_loop W self (l # ls) acc =
     (case split_on ''  '' l of
        [] \<Rightarrow> (acc, Some IndexError)
      | first # others \<Rightarrow>
          (if strip first = [] then get_tapes_loop W self ls acc
           else if set (first # others) \<inter> set heading \<noteq> {} then get_tapes_loop W self ls acc
           else if length (first # others) < 2 then get_tapes_loop W self ls acc
           else
             (let tapes = filter (\<lambda>tape_data. tape_data \<noteq> []) (map strip (first # others))
              in if length tapes = 8
                 then
                   (let tape_info =
                          \<lparr>barcode = tapes ! 0, pool_name = tapes ! 1, location = tapes ! 2,
                           state = tapes ! 3, tape_size = tapes ! 4, used = tapes ! 5,
                           modification_time = tapes ! 7\<rparr>
                    in case check_used W self tape_info of
                         Inl e \<Rightarrow> (acc, Some e)
                       | Inr usage \<Rightarrow>
                           (let st = check_state tape_info
                            in case check_modification_date W tape_info (mechanism self) of
                                 Inl e \<Rightarrow> (acc, Some e)
                               | Inr last_modified \<Rightarrow>
                                   (if contains ''slot'' (location tape_info) \<and> usage \<and> st
                                       \<and> last_modified
                                    then get_tapes_loop W self ls (acc @ [tape_info])
                                    else get_tapes_loop W self ls acc)))
                 else get_tapes_loop W self ls acc)))"

text \<open>
  \<^verbatim>\<open>get_tapes()\<close>: on an empty or failed retrieval the method returns at once and
  \<^verbatim>\<open>self.tape_list\<close> keeps its value.
\<close>

definition get_tapes_command :: "open_system \<Rightarrow> string" where
  "get_tapes_command self = ''vtl tape show pool '' @ pool self @ '' sort-by modtime descending''"

definition get_tapes :: "world \<Rightarrow> open_system \<Rightarrow> open_system" where
  "get_tapes W self =
     (case execute_ssh_command W (get_tapes_command self) of
        SshFalse \<Rightarrow> self
      | SshOutput pool_data \<Rightarrow>
          (if pool_data = [] then self
           else self\<lparr>tape_list :=
                  fst (get_tapes_loop W self (split_on ''\<newline>'' pool_data) [])\<rparr>))"

text \<open>
  \<^verbatim>\<open>format_tape_data(pool_data)\<close>. Indexing \<^verbatim>\<open>tapes[7]\<close> on fewer than eight fields
  raises IndexError inside the \<^verbatim>\<open>try\<close>; \<^verbatim>\<open>False.split\<close> raises AttributeError there.
  Either way the list built so far is returned.
\<close>

fun format_tape_data_loop :: "string list \<Rightarrow> nat \<Rightarrow> formatted_tape list \<Rightarrow> formatted_tape list"
where
  "format_tape_data_loop [] i acc = acc"
| "format_tape_data_loop (l # ls) i acc =
     (case split_on ''  '' l of
        [] \<Rightarrow> acc
      | first # others \<Rightarrow>
          (if 3 < Suc i \<and> 1 < count_hyphen_0_2 first then acc
           else if Suc i \<le> 3 then format_tape_data_loop ls (Suc i) acc
           else
             (let tapes = filter (\<lambda>tape_data. tape_data \<noteq> []) (map strip (first # others))
              in if length tapes < 8 then acc
                 else format_tape_data_loop ls (Suc i)
                        (acc @ [\<lparr>f_barcode = tapes ! 0, f_pool_name = tapes ! 1,
                                 f_state = tapes ! 3, f_size = tapes ! 4, f_used = tapes ! 5,
                                 f_modification_time = tapes ! 7\<rparr>]))))"

fun format_tape_data :: "ssh_result \<Rightarrow> formatted_tape list" where
  "format_tape_data SshFalse = []"
| "format_tape_data (SshOutput pool_data) =
     format_tape_data_loop (split_on ''\<newline>'' pool_data) 0 []"

text \<open>
  The duration chosen by \<^verbatim>\<open>set_retention_lock\<close>: the daily value in days, then
  overwritten by the monthly value in years.
\<close>

definition retention_lock_period :: "open_system \<Rightarrow> string option" where
  "retention_lock_period self =
     (let period = None;
          period = (if positive_int (retention_lock_period_for_tapes_in_days self)
                    then Some (py_str (retention_lock_period_for_tapes_in_days self) @ ''day'')
                    else period);
          period = (if positive_int (retention_lock_period_for_tapes_for_monthly_in_years self)
                    then Some (py_str (retention_lock_period_for_tapes_for_monthly_in_years self)
                               @ ''year'')
                    else period)
      in period)"

text \<open>
  \<^verbatim>\<open>set_retention_lock(tape_info)\<close>: the commands sent to the appliance, in order,
  and the result. \<^verbatim>\<open>updated_info[0]\<close> raises IndexError on the empty list, outside
  any \<^verbatim>\<open>try\<close>.
\<close>

definition set_lock_command :: "tape_info \<Rightarrow> string \<Rightarrow> string" where
  "set_lock_command tape_info period =
     ''vtl tape modify '' @ barcode tape_info @ '' pool '' @ pool_name tape_info
     @ '' retention-lock '' @ period"

definition show_tape_command :: "tape_info \<Rightarrow> string" where
  "show_tape_command tape_info =
     ''vtl tape show pool '' @ pool_name tape_info @ '' barcode '' @ barcode tape_info"

definition set_retention_lock ::
  "world \<Rightarrow> open_system \<Rightarrow> tape_info \<Rightarrow> string list \<times> (py_error + bool)"
where
  "set_retention_lock W self tape_info =
     (case retention_lock_period self of
        None \<Rightarrow> ([], Inr False)
      | Some period \<Rightarrow>
          (if period = [] then ([], Inr False)
           else
             (let retention_set_result = execute_ssh_command W (set_lock_command tape_info period);
                  data = execute_ssh_command W (show_tape_command tape_info);
                  updated_info = format_tape_data data
              in ([set_lock_command tape_info period, show_tape_command tape_info],
                  case updated_info of
                    [] \<Rightarrow> Inl IndexError
                  | u # rest \<Rightarrow> (if f_state u = ''RO/RL*'' then Inr True else Inr False)))))"

text \<open>
  The loop of \<^verbatim>\<open>apply_retention_lock_to_tapes\<close>: the barcodes whose lock was confirmed.
  The loop has no \<^verbatim>\<open>try\<close>: an exception of \<^verbatim>\<open>set_retention_lock\<close> leaves the method
  and, uncaught in the main program, ends the process.
\<close>

fun apply_retention_lock_loop ::
  "world \<Rightarrow> open_system \<Rightarrow> tape_info list \<Rightarrow> string list \<Rightarrow> py_error + string list"
where
  "apply_retention_lock_loop W self [] tape_list_result = Inr tape_list_result"
| "apply_retention_lock_loop W self (tape # tapes) tape_list_result =
     (case snd (set_retention_lock W self tape) of
        Inl e \<Rightarrow> Inl e
      | Inr result \<Rightarrow>
          apply_retention_lock_loop W self tapes
            (if result then tape_list_result @ [barcode tape] else tape_list_result))"

definition apply_retention_lock_to_tapes :: "world \<Rightarrow> open_system \<Rightarrow> py_error + string list" where
  "apply_retention_lock_to_tapes W self =
     (if 0 < length (tape_list self) \<and> pool_retention_lock_enabled self
      then apply_retention_lock_loop W self (tape_list self) []
      else Inr [])"

text \<open>
  \<^verbatim>\<open>set_max_retention_lock_period_pool()\<close> and \<^verbatim>\<open>set_min_retention_lock_period_pool()\<close>:
  the command sent to the appliance, if one is sent.
\<close>

definition max_retention_lock :: "open_system \<Rightarrow> string option" where
  "max_retention_lock self =
     (let retention_lock = None;
          retention_lock =
            (if positive_int (maximum_retention_lock_period_daily_backup_in_days self)
             then Some (py_str (maximum_retention_lock_period_daily_backup_in_days self) @ ''day'')
             else retention_lock);
          retention_lock =
            (if positive_int (maximum_retention_lock_period_monthly_backup_in_years self)
             then Some (py_str (maximum_retention_lock_period_monthly_backup_in_years self)
                        @ ''year'')
             else retention_lock)
      in retention_lock)"

definition set_max_retention_lock_period_pool :: "open_system \<Rightarrow> string option" where
  "set_max_retention_lock_period_pool self =
     (if 0 < length (tape_list self) \<and> pool_retention_lock_enabled self
      then (case max_retention_lock self of
              None \<Rightarrow> None
            | Some retention_lock \<Rightarrow>
                (if retention_lock = [] then None
                 else Some (''mtree retention-lock set max-retention-period '' @ retention_lock
                            @ '' mtree /data/col1/'' @ pool self)))
      else None)"

definition min_retention_lock :: "open_system \<Rightarrow> string option" where
  "min_retention_lock self =
     (let retention_lock = None;
          retention_lock =
            (if positive_int (minimum_retention_lock_period_daily_backup_in_days self)
             then Some (py_str (minimum_retention_lock_period_daily_backup_in_days self) @ ''day'')
             else retention_lock);
          retention_lock =
            (if positive_int (minimum_retention_lock_period_monthly_backup_in_days self)
             then Some (py_str (minimum_retention_lock_period_monthly_backup_in_days self)
                        @ ''day'')
             else retention_lock)
      in retention_lock)"

definition set_min_retention_lock_period_pool :: "open_system \<Rightarrow> string option" where
  "set_min_retention_lock_period_pool self =
     (if 0 < length (tape_list self) \<and> pool_retention_lock_enabled self
      then (case min_retention_lock self of
              None \<Rightarrow> None
            | Some retention_lock \<Rightarrow>
                (if retention_lock = [] then None
                 else Some (''mtree retention-lock set min-retention-period '' @ retention_lock
                            @ '' mtree  /data/col1/'' @ pool self)))
      else None)"

section \<open>open\_system\_vtl\_reset.py: the reclaim workflow\<close>

text \<open>
  The attributes of \<^verbatim>\<open>OpenSystemVTLReset\<close>. \<^verbatim>\<open>jukebox_name\<close> is whatever the
  configuration holds under that key (it is not validated).
\<close>

record open_system_vtl_reset = vtl_base +
  jukebox_name :: yaml
  retention_locked_tape_list :: "rl_tape_info list"

text \<open>\<^verbatim>\<open>OpenSystemVTLReset.check_state(tape_info)\<close>: true when the tape is locked.\<close>

definition reset_check_state :: "rl_tape_info \<Rightarrow> bool" where
  "reset_check_state tape_info =
     (if contains ''RL'' (strip (state tape_info)) then True else False)"

text \<open>\<^verbatim>\<open>check_retention_date(tape_info)\<close>\<close>

definition check_retention_date :: "world \<Rightarrow> rl_tape_info \<Rightarrow> py_error + bool" where
  "check_retention_date W tape_info =
     (if retention_time tape_info \<noteq> ''n/a''
      then (case strptime W (retention_time tape_info) tape_time_format of
              None \<Rightarrow> Inl ValueError
            | Some modified_date \<Rightarrow>
                (let modified_date_timestamp = py_int_of (timestamp modified_date);
                     current_time_stamp = timestamp (now W)
                 in if current_time_stamp > of_int modified_date_timestamp
                    then Inr True else Inr False))
      else Inr False)"

text \<open>
  The loop of \<^verbatim>\<open>get_tapes_by_pool\<close>; \<open>i\<close> is the number of lines read before this
  one. Indexing \<^verbatim>\<open>tapes[7]\<close> on fewer than eight fields raises IndexError. The
  result is the list accumulated and the exception that ended the loop, if any.
\<close>

fun get_tapes_by_pool_loop ::
  "world \<Rightarrow> string list \<Rightarrow> nat \<Rightarrow> rl_tape_info list \<Rightarrow> rl_tape_info list \<times> py_error option"
where
  "get_tapes_by_pool_loop W [] i acc = (acc, None)"
| "get_tapes_by_pool_loop W (l # ls) i acc =
     (case split_on ''  '' l of
        [] \<Rightarrow> (acc, Some IndexError)
      | first # others \<Rightarrow>
          (if 3 < Suc i \<and> 1 < count_hyphen_0_2 first then (acc, None)
           else if Suc i \<le> 3 then get_tapes_by_pool_loop W ls (Suc i) acc
           else
             (let tapes = filter (\<lambda>tape_data. tape_data \<noteq> []) (map strip (first # others))
              in if length tapes < 8 then (acc, Some IndexError)
                 else
                   (let tape_info =
                          \<lparr>barcode = tapes ! 0, pool_name = tapes ! 1, location = tapes ! 2,
                           state = tapes ! 3, tape_size = tapes ! 4,
                           retention_time = tapes ! 7\<rparr>;
                        acc1 = (if barcode tape_info = ''TEST01L5'' then acc @ [tape_info]
                                else acc);
                        st = reset_check_state tape_info
                    in case check_retention_date W tape_info of
                         Inl e \<Rightarrow> (acc1, Some e)
                       | Inr check_retention_date_tape \<Rightarrow>
                           (if st \<and> check_retention_date_tape
                            then get_tapes_by_pool_loop W ls (Suc i) (acc1 @ [tape_info])
                            else get_tapes_by_pool_loop W ls (Suc i) acc1)))))"

definition get_tapes_by_pool_command :: "open_system_vtl_reset \<Rightarrow> string" where
  "get_tapes_by_pool_command self =
     ''vtl tape show pool '' @ pool self @ '' time-display retention sort-by state ascending''"

definition get_tapes_by_pool :: "world \<Rightarrow> open_system_vtl_reset \<Rightarrow> open_system_vtl_reset" where
  "get_tapes_by_pool W self =
     (case execute_ssh_command W (get_tapes_by_pool_command self) of
        SshFalse \<Rightarrow> self\<lparr>retention_locked_tape_list := []\<rparr>
      | SshOutput pool_data \<Rightarrow>
          (if pool_data = [] then self\<lparr>retention_locked_tape_list := []\<rparr>
           else self\<lparr>retention_locked_tape_list :=
                  fst (get_tapes_by_pool_loop W (split_on ''\<newline>'' pool_data) 0 [])\<rparr>))"

text \<open>
  \<^verbatim>\<open>re.search(r'(\d+)$', location)\<close>: the digits at the end of the text (or before
  its final newline), if there are any.
\<close>

definition trailing_digits :: "string \<Rightarrow> string" where
  "trailing_digits s = rev (takeWhile (\<lambda>c. c \<in> set ''0123456789'') (rev s))"

definition search_slot_number :: "string \<Rightarrow> string option" where
  "search_slot_number s =
     (if trailing_digits s \<noteq> [] then Some (trailing_digits s)
      else if s \<noteq> [] \<and> last s = CHR 0x0A \<and> trailing_digits (butlast s) \<noteq> []
      then Some (trailing_digits (butlast s))
      else None)"

text \<open>\<^verbatim>\<open>location.split(" ")[0]\<close>\<close>

definition library_name_of :: "string \<Rightarrow> string" where
  "library_name_of loc = (case split_on '' '' loc of [] \<Rightarrow> [] | first # others \<Rightarrow> first)"

text \<open>
  \<^verbatim>\<open>export_tape_from_library(tape)\<close>. The method has no \<^verbatim>\<open>return\<close> after its only
  \<^verbatim>\<open>if\<close>: without a slot number, or in the vault, it returns \<^verbatim>\<open>None\<close> (here \<open>None\<close>).
\<close>

definition export_tape_from_library ::
  "world \<Rightarrow> open_system_vtl_reset \<Rightarrow> rl_tape_info \<Rightarrow> bool option"
where
  "export_tape_from_library W self tape =
     (case search_slot_number (location tape) of
        None \<Rightarrow> None
      | Some slot \<Rightarrow>
          (if library_name_of (location tape) \<noteq> ''vault''
           then (case execute_ssh_command W
                        (''vtl export '' @ library_name_of (location tape) @ '' slot '' @ slot) of
                   SshFalse \<Rightarrow> Some False
                 | SshOutput out \<Rightarrow> Some True)
           else None))"

text \<open>\<^verbatim>\<open>import_tape_from_library(tape)\<close>\<close>

definition import_tape_from_library ::
  "world \<Rightarrow> open_system_vtl_reset \<Rightarrow> rl_tape_info \<Rightarrow> bool"
where
  "import_tape_from_library W self tape =
     (if library_name_of (location tape) \<noteq> ''vault''
      then (case execute_ssh_command W
                   (''vtl import '' @ library_name_of (location tape) @ '' barcode ''
                    @ barcode tape @ '' count 1 pool '' @ pool self @ '' element slot'') of
              SshFalse \<Rightarrow> False
            | SshOutput out \<Rightarrow> True)
      else False)"

text \<open>\<^verbatim>\<open>execute_tape_remove_commmand(tape_info)\<close>\<close>

definition execute_tape_remove_commmand ::
  "world \<Rightarrow> open_system_vtl_reset \<Rightarrow> rl_tape_info \<Rightarrow> bool"
where
  "execute_tape_remove_commmand W self tape_info =
     (case execute_ssh_command W
             (''vtl tape del '' @ barcode tape_info @ '' pool '' @ pool self) of
        SshFalse \<Rightarrow> False
      | SshOutput out \<Rightarrow> True)"

text \<open>
  \<^verbatim>\<open>create_tape(rl_tape)\<close>: unpacking \<^verbatim>\<open>size_str.split()\<close> into two names and
  \<^verbatim>\<open>int(size_value)\<close> raise ValueError, outside any \<^verbatim>\<open>try\<close>.
\<close>

definition create_tape :: "world \<Rightarrow> open_system_vtl_reset \<Rightarrow> rl_tape_info \<Rightarrow> py_error + bool" where
  "create_tape W self rl_tape =
     (case split_ws (strip (tape_size rl_tape)) of
        [size_value, size_unit] \<Rightarrow>
          (case py_int W size_value of
             None \<Rightarrow> Inl ValueError
           | Some n \<Rightarrow>
               (case execute_ssh_command W
                       (''vtl tape add '' @ barcode rl_tape @ '' capacity '' @ str_int n
                        @ '' pool '' @ pool self) of
                  SshFalse \<Rightarrow> Inr False
                | SshOutput out \<Rightarrow> Inr True))
      | _ \<Rightarrow> Inl ValueError)"

text \<open>
  The labelling step of \<^verbatim>\<open>remove_retention_locked_tapes\<close>. \<^verbatim>\<open>' '.join(command)\<close> in
  \<^verbatim>\<open>run_nsrjb_command\<close> raises TypeError when the jukebox name is not a string.
\<close>

definition label_tape :: "world \<Rightarrow> open_system_vtl_reset \<Rightarrow> rl_tape_info \<Rightarrow> py_error + bool" where
  "label_tape W self rl_tape =
     (case jukebox_name self of
        YStr jukebox \<Rightarrow>
          run_nsrjb_command W
            [''nsrjb'', ''-L'', ''-j'', jukebox, ''-b'' @ pool self, ''-T'', barcode rl_tape, ''-Y'']
      | _ \<Rightarrow> Inl TypeError)"

text \<open>
  The lists of \<^verbatim>\<open>remove_retention_locked_tapes\<close>: the barcodes recreated and the
  tapes that failed, by stage. (\<^verbatim>\<open>self.created_tapes\<close> is set to \<open>created_tapes\<close>
  after the loop.)
\<close>

record buckets =
  created_tapes :: "string list"
  failed_tape_while_export :: "rl_tape_info list"
  failed_tape_while_remove :: "rl_tape_info list"
  failed_tape_while_create :: "rl_tape_info list"
  failed_tape_while_import :: "rl_tape_info list"
  failed_tape_while_delete_on_networker :: "rl_tape_info list"

definition empty_buckets :: buckets where
  "empty_buckets =
     \<lparr>created_tapes = [], failed_tape_while_export = [], failed_tape_while_remove = [],
      failed_tape_while_create = [], failed_tape_while_import = [],
      failed_tape_while_delete_on_networker = []\<rparr>"

text \<open>The body of the loop of \<^verbatim>\<open>remove_retention_locked_tapes\<close>, for one tape.\<close>

definition reclaim_tape ::
  "world \<Rightarrow> open_system_vtl_reset \<Rightarrow> rl_tape_info \<Rightarrow> buckets \<Rightarrow> py_error + buckets"
where
  "reclaim_tape W self rl_tape b =
     (case run_nsrmm_command W [''nsrmm'', ''-d'', barcode rl_tape] of
        Inl e \<Rightarrow> Inl e
      | Inr delete_result \<Rightarrow>
          (if delete_result then
             (if export_tape_from_library W self rl_tape = Some True then
                (if execute_tape_remove_commmand W self rl_tape then
                   (case create_tape W self rl_tape of
                      Inl e \<Rightarrow> Inl e
                    | Inr created_result \<Rightarrow>
                        (if created_result then
                           (if import_tape_from_library W self rl_tape then
                              (case label_tape W self rl_tape of
                                 Inl e \<Rightarrow> Inl e
                               | Inr labeling \<Rightarrow>
                                   Inr (b\<lparr>created_tapes :=
                                            created_tapes b @ [barcode rl_tape]\<rparr>))
                            else Inr (b\<lparr>failed_tape_while_import :=
                                          failed_tape_while_import b @ [rl_tape]\<rparr>))
                         else Inr (b\<lparr>failed_tape_while_create :=
                                       failed_tape_while_create b @ [rl_tape]\<rparr>)))
                 else Inr (b\<lparr>failed_tape_while_remove :=
                               failed_tape_while_remove b @ [rl_tape]\<rparr>))
              else Inr (b\<lparr>failed_tape_while_export :=
                            failed_tape_while_export b @ [rl_tape]\<rparr>))
           else Inr (b\<lparr>failed_tape_while_delete_on_networker :=
                         failed_tape_while_delete_on_networker b @ [rl_tape]\<rparr>)))"

text \<open>
  The loop of \<^verbatim>\<open>remove_retention_locked_tapes\<close> has no \<^verbatim>\<open>try\<close>: an exception in the
  body leaves the method and, uncaught in the main program, ends the process.
\<close>

fun remove_loop ::
  "world \<Rightarrow> open_system_vtl_reset \<Rightarrow> rl_tape_info list \<Rightarrow> buckets \<Rightarrow> py_error + buckets"
where
  "remove_loop W self [] b = Inr b"
| "remove_loop W self (rl_tape # rest) b =
     (case reclaim_tape W self rl_tape b of
        Inl e \<Rightarrow> Inl e
      | Inr b' \<Rightarrow> remove_loop W self rest b')"

definition remove_retention_locked_tapes ::
  "world \<Rightarrow> open_system_vtl_reset \<Rightarrow> py_error + buckets"
where
  "remove_retention_locked_tapes W self =
     (if 0 < length (retention_locked_tape_list self)
      then remove_loop W self (retention_locked_tape_list self) empty_buckets
      else Inr empty_buckets)"

section \<open>Concrete library functions for evaluating examples\<close>

definition digit_of :: "char \<Rightarrow> nat option" where
  "digit_of c = map_of (zip ''0123456789'' [0, 1, 2, 3, 4, 5, 6, 7, 8, 9]) c"

fun digits_value :: "string \<Rightarrow> nat \<Rightarrow> nat option" where
  "digits_value [] acc = Some acc"
| "digits_value (c # cs) acc =
     (case digit_of c of None \<Rightarrow> None | Some d \<Rightarrow> digits_value cs (10 * acc + d))"

text \<open>
  \<^verbatim>\<open>float(s)\<close> on decimal literals with an optional sign and an optional fraction
  (no exponent), exact.
\<close>

definition decimal_float :: "string \<Rightarrow> rat option" where
  "decimal_float s =
     (let t = strip s;
          neg = (take 1 t = ''-'');
          body = (if take 1 t = ''-'' \<or> take 1 t = ''+'' then drop 1 t else t);
          ip = takeWhile (\<lambda>c. c \<noteq> CHR ''.'') body;
          fp = drop 1 (dropWhile (\<lambda>c. c \<noteq> CHR ''.'') body)
      in if ip = [] \<and> fp = [] then None
         else (case (digits_value ip 0, digits_value fp 0) of
                 (Some a, Some b) \<Rightarrow>
                   Some ((if neg then - 1 else 1) * (of_nat a + of_nat b / 10 ^ length fp))
               | _ \<Rightarrow> None))"

text \<open>\<^verbatim>\<open>int(s)\<close> on decimal literals with an optional sign.\<close>

definition decimal_int :: "string \<Rightarrow> int option" where
  "decimal_int s =
     (let t = strip s;
          neg = (take 1 t = ''-'');
          body = (if take 1 t = ''-'' \<or> take 1 t = ''+'' then drop 1 t else t)
      in if body = [] then None
         else (case digits_value body 0 of
                 Some a \<Rightarrow> Some (if neg then - int a else int a)
               | None \<Rightarrow> None))"

text \<open>The day number of a calendar date (Python's \<^verbatim>\<open>_ymd2ord\<close>).\<close>

definition is_leap :: "int \<Rightarrow> bool" where
  "is_leap y = (y mod 4 = 0 \<and> (y mod 100 \<noteq> 0 \<or> y mod 400 = 0))"

definition days_in_month :: "int \<Rightarrow> nat \<Rightarrow> nat" where
  "days_in_month y m =
     (if m = 2 then (if is_leap y then 29 else 28)
      else if m \<in> {4, 6, 9, 11} then 30 else 31)"

definition ymd2ord :: "int \<Rightarrow> nat \<Rightarrow> nat \<Rightarrow> int" where
  "ymd2ord y m d =
     365 * (y - 1) + (y - 1) div 4 - (y - 1) div 100 + (y - 1) div 400
     + int (sum_list (map (days_in_month y) [1..<m])) + int d"

text \<open>
  \<^verbatim>\<open>datetime.strptime(text, '%Y/%m/%d %H:%M:%S')\<close> on the fixed-width form
  \<^verbatim>\<open>YYYY/MM/DD HH:MM:SS\<close> that the appliance prints.
\<close>

definition strptime_fixed :: "string \<Rightarrow> datetime option" where
  "strptime_fixed s =
     (if length s = 19 \<and> s ! 4 = CHR ''/'' \<and> s ! 7 = CHR ''/'' \<and> s ! 10 = CHR '' ''
         \<and> s ! 13 = CHR '':'' \<and> s ! 16 = CHR '':''
      then (case (digits_value (take 4 s) 0, digits_value (take 2 (drop 5 s)) 0,
                  digits_value (take 2 (drop 8 s)) 0, digits_value (take 2 (drop 11 s)) 0,
                  digits_value (take 2 (drop 14 s)) 0, digits_value (take 2 (drop 17 s)) 0) of
              (Some y, Some m, Some d, Some hh, Some mi, Some ss) \<Rightarrow>
                (if 1 \<le> y \<and> 1 \<le> m \<and> m \<le> 12 \<and> 1 \<le> d \<and> d \<le> days_in_month (int y) m
                    \<and> hh < 24 \<and> mi < 60 \<and> ss < 60
                 then Some \<lparr>dt_ordinal = ymd2ord (int y) m d, dt_hour = hh, dt_minute = mi,
                            dt_second = ss, dt_microsecond = 0\<rparr>
                 else None)
            | _ \<Rightarrow> None)
      else None)"

text \<open>
  An example world: decimal number parsing, the fixed-width tape time format, the clock
  at 2025-02-17 12:00:00, an SSH channel and subprocesses that succeed with empty
  output.
\<close>

definition world0 :: world where
  "world0 =
     \<lparr>py_float = decimal_float,
      py_int = decimal_int,
      strptime = (\<lambda>text fmt. if fmt = tape_time_format then strptime_fixed text else None),
      now = \<lparr>dt_ordinal = 739299, dt_hour = 12, dt_minute = 0, dt_second = 0,
              dt_microsecond = 0\<rparr>,
      ssh_exec = (\<lambda>command. SshDone [] []),
      subprocess = (\<lambda>command. ProcDone [] [] 0),
      popen = (\<lambda>command. Completed [] [] 0)\<rparr>"

text \<open>
  Example objects: a tape of the lock-apply workflow written on the day of \<open>world0\<close>,
  an \<^verbatim>\<open>OpenSystem\<close> object holding it, and the expired tape of pool \<^verbatim>\<open>FEB_3\<close> that the
  source of \<^verbatim>\<open>get_tapes_by_pool\<close> quotes, with an \<^verbatim>\<open>OpenSystemVTLReset\<close> object.
\<close>

definition example_tape :: tape_info where
  "example_tape =
     \<lparr>barcode = ''A55004LA'', pool_name = ''POOL'', location = ''Pool_TEST slot 714'',
      state = ''RW'', tape_size = ''5 GiB'', used = ''12.5 %'',
      modification_time = ''2025/02/17 09:30:00''\<rparr>"

definition example_open_system :: open_system where
  "example_open_system =
     \<lparr>pool = ''POOL'', mechanism = YInt 1, pool_retention_lock_enabled = True,
      tape_list = [example_tape], report = [],
      retention_lock_period_for_tapes_in_days = YInt 30,
      retention_lock_period_for_tapes_for_monthly_in_years = YInt 2,
      minimum_retention_lock_period_daily_backup_in_days = YInt 1,
      maximum_retention_lock_period_daily_backup_in_days = YInt 30,
      minimum_retention_lock_period_monthly_backup_in_days = YInt 30,
      maximum_retention_lock_period_monthly_backup_in_years = YInt 2,
      minimum_tape_usage = YStr ''1 GiB''\<rparr>"

definition example_rl_tape :: rl_tape_info where
  "example_rl_tape =
     \<lparr>barcode = ''A55157LA'', pool_name = ''FEB_3'', location = ''Pool_TEST slot 667'',
      state = ''RO/RL*'', tape_size = ''5 GiB'', retention_time = ''2025/02/16 19:45:48''\<rparr>"

definition example_reset :: open_system_vtl_reset where
  "example_reset =
     \<lparr>pool = ''FEB_3'', jukebox_name = YStr ''jukebox'',
      retention_locked_tape_list = [example_rl_tape]\<rparr>"

section \<open>Predicates of the statements and example inputs\<close>

text \<open>
  The five stages before labelling, as \<^verbatim>\<open>remove_retention_locked_tapes\<close> tests them:
  each result is truthy.
\<close>

definition five_stages_succeed :: "world \<Rightarrow> open_system_vtl_reset \<Rightarrow> rl_tape_info \<Rightarrow> bool" where
  "five_stages_succeed W self t =
     (run_nsrmm_command W [''nsrmm'', ''-d'', barcode t] = Inr True
      \<and> export_tape_from_library W self t = Some True
      \<and> execute_tape_remove_commmand W self t
      \<and> create_tape W self t = Inr True
      \<and> import_tape_from_library W self t)"




text \<open>A world in which every command succeeds but the labelling command exits with 1.\<close>

definition label_fails_world :: world where
  "label_fails_world =
     world0\<lparr>subprocess :=
       (\<lambda>command. if take 1 command = [''nsrjb''] then ProcDone [] ''label failed'' 1
                   else ProcDone [] [] 0)\<rparr>"

text \<open>
  Usage corroboration by the placement report: the first entry of the report whose
  file name contains the barcode is larger than the configured minimum, and the
  tape's modification time and the entry's placement time are both readable.
\<close>

definition first_placement_above_minimum :: "world \<Rightarrow> open_system \<Rightarrow> tape_info \<Rightarrow> bool" where
  "first_placement_above_minimum W self ti =
     (case find (\<lambda>p. contains (barcode ti) (file_name p)) (report self) of
        None \<Rightarrow> False
      | Some p \<Rightarrow>
          (case minimum_tape_usage self of
             YStr m \<Rightarrow>
               (case size_to_bytes W m of
                  Inl e \<Rightarrow> False
                | Inr reference \<Rightarrow>
                    (case size_to_bytes W (file_size p) of
                       Inl e \<Rightarrow> False
                     | Inr bytes \<Rightarrow>
                         reference < bytes
                         \<and> strptime W (modification_time ti) tape_time_format \<noteq> None
                         \<and> strptime W (placement_time p) placement_time_format \<noteq> None))
           | _ \<Rightarrow> False))"

text \<open>
  A report with two entries for the same barcode, the first one small, and a world
  that also reads the placement time of these entries.
\<close>

definition two_placements :: "placement list" where
  "two_placements =
     [\<lparr>file_name = ''/data/col1/POOL/A55004LA.idx'', file_size = ''512 MiB'',
       placement_time = ''Mon Feb 17 09:30:00 2025''\<rparr>,
      \<lparr>file_name = ''/data/col1/POOL/A55004LA'', file_size = ''5 GiB'',
       placement_time = ''Mon Feb 17 09:30:00 2025''\<rparr>]"

definition placement_world :: world where
  "placement_world =
     world0\<lparr>strptime :=
       (\<lambda>text fmt.
          if fmt = tape_time_format then strptime_fixed text
          else if fmt = placement_time_format \<and> text = ''Mon Feb 17 09:30:00 2025''
          then Some \<lparr>dt_ordinal = 739299, dt_hour = 9, dt_minute = 30, dt_second = 0,
                      dt_microsecond = 0\<rparr>
          else None)\<rparr>"

text \<open>
  The record \<^verbatim>\<open>get_tapes\<close> builds from a line of the listing, if it builds one: the
  line is not blank, has no heading or separator field, and has exactly eight fields.
\<close>

definition tape_of_line :: "string \<Rightarrow> tape_info option" where
  "tape_of_line l =
     (case split_on ''  '' l of
        [] \<Rightarrow> None
      | first # others \<Rightarrow>
          (if strip first = [] \<or> set (first # others) \<inter> set heading \<noteq> {}
              \<or> length (first # others) < 2
           then None
           else
             (let tapes = filter (\<lambda>tape_data. tape_data \<noteq> []) (map strip (first # others))
              in if length tapes = 8
                 then Some \<lparr>barcode = tapes ! 0, pool_name = tapes ! 1, location = tapes ! 2,
                            state = tapes ! 3, tape_size = tapes ! 4, used = tapes ! 5,
                            modification_time = tapes ! 7\<rparr>
                 else None)))"

text \<open>The records of the lines of a listing, in order.\<close>

definition tape_records :: "string list \<Rightarrow> tape_info list" where
  "tape_records ls = List.map_filter tape_of_line ls"

text \<open>
  The date rule as the specification words it: mechanism 1 asks for the calendar day
  of \<open>now\<close>, mechanism 2 for the day before; any other mechanism matches nothing.
\<close>

definition modified_on :: "world \<Rightarrow> yaml \<Rightarrow> tape_info \<Rightarrow> bool" where
  "modified_on W mech ti =
     (case strptime W (modification_time ti) tape_time_format of
        None \<Rightarrow> False
      | Some modified_date \<Rightarrow>
          (py_eq_int mech 1 \<and> dt_ordinal modified_date = dt_ordinal (now W))
          \<or> (py_eq_int mech 2 \<and> dt_ordinal modified_date = dt_ordinal (now W) - 1))"

text \<open>
  The selection rule as the specification words it: the location names a slot, the
  tape is usage-eligible, the state has no lock marker, and the date rule holds.
\<close>

definition lock_selected :: "world \<Rightarrow> open_system \<Rightarrow> tape_info \<Rightarrow> bool" where
  "lock_selected W self ti =
     (contains ''slot'' (location ti)
      \<and> check_used W self ti = Inr True
      \<and> \<not> contains ''RL'' (state ti)
      \<and> modified_on W (mechanism self) ti)"

text \<open>A listing with a heading, a separator, an eligible tape, a locked tape and a total.\<close>

definition example_listing :: "string list" where
  "example_listing =
     [''Processing tapes....'',
      ''Barcode   Pool   Location   State   Size   Used (%)   Comp   Modification Time'',
      ''--------   --------   -----------------------   -----   --------   ----------------   ----   -------------------'',
      ''A55004LA   POOL   Pool_TEST slot 714   RW   5 GiB   12.5 %   1x   2025/02/17 09:30:00'',
      ''A55005LA   POOL   Pool_TEST slot 715   RO/RL*   5 GiB   40.0 %   1x   2025/02/17 10:00:00'',
      ''Total number of tapes: 2'']"

text \<open>
  The record \<^verbatim>\<open>get_tapes_by_pool\<close> builds from a line that has at least eight fields.
\<close>

definition rl_tape_of_line :: "string \<Rightarrow> rl_tape_info option" where
  "rl_tape_of_line l =
     (let tapes = filter (\<lambda>tape_data. tape_data \<noteq> []) (map strip (split_on ''  '' l))
      in if length tapes < 8 then None
         else Some \<lparr>barcode = tapes ! 0, pool_name = tapes ! 1, location = tapes ! 2,
                    state = tapes ! 3, tape_size = tapes ! 4, retention_time = tapes ! 7\<rparr>)"

text \<open>The non-empty stripped fields of a line (the list \<^verbatim>\<open>tapes\<close> of the parsers).\<close>

definition fields_of_line :: "string \<Rightarrow> string list" where
  "fields_of_line l = filter (\<lambda>tape_data. tape_data \<noteq> []) (map strip (split_on ''  '' l))"

text \<open>
  A retention listing whose only tape has the barcode \<^verbatim>\<open>TEST01L5\<close>, is not locked and
  has no retention time.
\<close>

definition test_barcode_listing :: "string list" where
  "test_barcode_listing =
     [''Processing tapes....'',
      ''Barcode   Pool   Location   State   Size   Used (%)   Comp   Retention Time'',
      ''--------   --------   -----------------------   -----   --------   ----------------   ----   -------------------'',
      ''TEST01L5   FEB_3   vault   RW   5 GiB   0.0 %   1x   n/a'']"

text \<open>A world whose SSH channel raises on every command.\<close>

definition unreachable_world :: world where
  "unreachable_world = world0\<lparr>ssh_exec := (\<lambda>command. SshRaised)\<rparr>"

text \<open>A line whose first field starts with two hyphens.\<close>

definition is_separator_line :: "string \<Rightarrow> bool" where
  "is_separator_line l =
     (case split_on ''  '' l of [] \<Rightarrow> False | first # others \<Rightarrow> 1 < count_hyphen_0_2 first)"

text \<open>
  A retention listing: three heading lines, a line of three fields, and the expired
  locked tape of pool \<^verbatim>\<open>FEB_3\<close>.
\<close>

definition example_retention_listing :: "string list" where
  "example_retention_listing =
     [''Processing tapes....'',
      ''Barcode   Pool   Location   State   Size   Used (%)   Comp   Retention Time'',
      ''--------   --------   -----------------------   -----   --------   ----------------   ----   -------------------'',
      ''A55004LA   POOL   vault'',
      ''A55157LA   FEB_3   Pool_TEST slot 667   RO/RL*   5 GiB   0.0 %   1x   2025/02/16 19:45:48'']"

text \<open>The record of the only tape of \<open>test_barcode_listing\<close>.\<close>

definition test_barcode_tape :: rl_tape_info where
  "test_barcode_tape =
     \<lparr>barcode = ''TEST01L5'', pool_name = ''FEB_3'', location = ''vault'', state = ''RW'',
      tape_size = ''5 GiB'', retention_time = ''n/a''\<rparr>"

text \<open>The number of entries in the lists of \<^verbatim>\<open>remove_retention_locked_tapes\<close>.\<close>

definition bucket_count :: "buckets \<Rightarrow> nat" where
  "bucket_count b =
     length (created_tapes b) + length (failed_tape_while_export b)
     + length (failed_tape_while_remove b) + length (failed_tape_while_create b)
     + length (failed_tape_while_import b) + length (failed_tape_while_delete_on_networker b)"

text \<open>The tape has an outcome: its barcode is in the success list or it is in a failure list.\<close>

definition recorded :: "buckets \<Rightarrow> rl_tape_info \<Rightarrow> bool" where
  "recorded b t =
     (barcode t \<in> set (created_tapes b) \<or> t \<in> set (failed_tape_while_export b)
      \<or> t \<in> set (failed_tape_while_remove b) \<or> t \<in> set (failed_tape_while_create b)
      \<or> t \<in> set (failed_tape_while_import b)
      \<or> t \<in> set (failed_tape_while_delete_on_networker b))"

text \<open>
  A second tape, the appliance's answer to a status query for it once it is locked,
  and a world in which the status query for \<open>example_tape\<close> fails while the one for
  the second tape shows it locked.
\<close>

definition second_tape :: tape_info where
  "second_tape =
     \<lparr>barcode = ''A55005LA'', pool_name = ''POOL'', location = ''Pool_TEST slot 715'',
      state = ''RW'', tape_size = ''5 GiB'', used = ''40.0 %'',
      modification_time = ''2025/02/17 10:00:00''\<rparr>"

definition locked_status_output :: string where
  "locked_status_output =
     ''Processing tapes....'' @ ''\<newline>''
     @ ''Barcode   Pool   Location   State   Size   Used (%)   Comp   Modification Time'' @ ''\<newline>''
     @ ''--------   --------   -----------------------   -----   --------   ----------------   ----   -------------------'' @ ''\<newline>''
     @ ''A55005LA   POOL   Pool_TEST slot 715   RO/RL*   5 GiB   40.0 %   1x   2025/02/17 10:00:00''"

definition status_query_fails_world :: world where
  "status_query_fails_world =
     world0\<lparr>ssh_exec :=
       (\<lambda>command.
          if command = ''vtl tape show pool POOL barcode A55004LA'' then SshRaised
          else if command = ''vtl tape show pool POOL barcode A55005LA''
          then SshDone locked_status_output []
          else SshDone [] [])\<rparr>"

text \<open>
  The appliance's answer to a status query for \<open>example_tape\<close> when the lock was not
  set, and a world in which the status queries show \<open>example_tape\<close> unlocked and the
  second tape locked.
\<close>

definition unlocked_status_output :: string where
  "unlocked_status_output =
     ''Processing tapes....'' @ ''\<newline>''
     @ ''Barcode   Pool   Location   State   Size   Used (%)   Comp   Modification Time'' @ ''\<newline>''
     @ ''--------   --------   -----------------------   -----   --------   ----------------   ----   -------------------'' @ ''\<newline>''
     @ ''A55004LA   POOL   Pool_TEST slot 714   RW   5 GiB   12.5 %   1x   2025/02/17 09:30:00''"

definition lock_refused_world :: world where
  "lock_refused_world =
     world0\<lparr>ssh_exec :=
       (\<lambda>command.
          if command = ''vtl tape show pool POOL barcode A55004LA''
          then SshDone unlocked_status_output []
          else if command = ''vtl tape show pool POOL barcode A55005LA''
          then SshDone locked_status_output []
          else SshDone [] [])\<rparr>"

text \<open>
  Two more expired tapes of the reclaim workflow: one in the vault, and one whose size
  is not a whole number (\<^verbatim>\<open>int("5.5")\<close> raises ValueError in \<^verbatim>\<open>create_tape\<close>).
\<close>

definition vault_tape :: rl_tape_info where
  "vault_tape =
     \<lparr>barcode = ''A55158LA'', pool_name = ''FEB_3'', location = ''vault'',
      state = ''RO/RL*'', tape_size = ''5 GiB'', retention_time = ''2025/02/16 19:45:48''\<rparr>"

definition fractional_size_tape :: rl_tape_info where
  "fractional_size_tape =
     \<lparr>barcode = ''A55159LA'', pool_name = ''FEB_3'', location = ''Pool_TEST slot 668'',
      state = ''RO/RL*'', tape_size = ''5.5 GiB'', retention_time = ''2025/02/16 19:45:48''\<rparr>"

section \<open>Unit conversion\<close>

lemma size_to_bytes_table:
  assumes "split_ws (strip s) = [v, u]" and "py_float W v = Some x"
  shows "size_to_bytes W s =
           (case map_of spec_unit_table (upper u) of
              Some f \<Rightarrow> Inr (x * f)
            | None \<Rightarrow> Inl ValueError)"
  using assms by (simp add: size_to_bytes_def spec_unit_table_def Let_def)

lemma size_to_bytes_Inr:
  assumes "size_to_bytes W s = Inr r"
  shows "\<exists>v u x f. split_ws (strip s) = [v, u] \<and> py_float W v = Some x
           \<and> map_of spec_unit_table (upper u) = Some f \<and> r = x * f"
proof -
  from assms obtain v u where vu: "split_ws (strip s) = [v, u]"
    by (auto simp: size_to_bytes_def split: list.splits)
  from assms vu obtain x where x: "py_float W v = Some x"
    by (auto simp: size_to_bytes_def split: option.splits)
  from size_to_bytes_table [OF vu x] assms
  obtain f where "map_of spec_unit_table (upper u) = Some f" and "r = x * f"
    by (auto split: option.splits)
  with vu x show ?thesis by blast
qed

text \<open>
  C9. \<open>size_to_bytes\<close> converts by the fixed binary-unit table (B, KB, MB/MiB, GB/GiB,
  TB/TiB, compared in upper case): a string of a number \<open>x\<close> and a unit of the table
  gives \<open>x\<close> times the unit's factor, so \<^verbatim>\<open>"2 TiB"\<close> gives exactly \<open>2 * 2^40\<close>; and every
  string that is not a number followed by a unit of the table raises an error, it
  never returns a number (in particular not zero).
\<close>

theorem size_to_bytes_unit_table:
  "(py_float W ''2'' = Some 2 \<longrightarrow> size_to_bytes W ''2 TiB'' = Inr (2 * 2 ^ 40))
   \<and> (\<forall>s v u x. split_ws (strip s) = [v, u] \<and> py_float W v = Some x \<longrightarrow>
        size_to_bytes W s =
          (case map_of spec_unit_table (upper u) of
             Some f \<Rightarrow> Inr (x * f)
           | None \<Rightarrow> Inl ValueError))
   \<and> (\<forall>s. (\<forall>v u. split_ws (strip s) = [v, u] \<longrightarrow> upper u \<notin> fst ` set spec_unit_table) \<longrightarrow>
        (\<exists>e. size_to_bytes W s = Inl e))"
proof (intro conjI allI impI)
  assume "py_float W ''2'' = Some 2"
  then show "size_to_bytes W ''2 TiB'' = Inr (2 * 2 ^ 40)"
    by (simp add: size_to_bytes_def strip_def split_ws_def is_space_def upper_def
        upper_char_def)
next
  fix s v u x
  assume "split_ws (strip s) = [v, u] \<and> py_float W v = Some x"
  then show "size_to_bytes W s =
      (case map_of spec_unit_table (upper u) of Some f \<Rightarrow> Inr (x * f) | None \<Rightarrow> Inl ValueError)"
    using size_to_bytes_table by blast
next
  fix s
  assume out: "\<forall>v u. split_ws (strip s) = [v, u] \<longrightarrow> upper u \<notin> fst ` set spec_unit_table"
  show "\<exists>e. size_to_bytes W s = Inl e"
  proof (cases "size_to_bytes W s")
    case (Inl e)
    then show ?thesis by blast
  next
    case (Inr r)
    from size_to_bytes_Inr [OF Inr] obtain v u f where
      "split_ws (strip s) = [v, u]" and "map_of spec_unit_table (upper u) = Some f"
      by blast
    with out show ?thesis
      by (metis map_of_SomeD fst_conv image_eqI)
  qed
qed

theorem size_to_bytes_unit_table_witness:
  "size_to_bytes world0 ''2 TiB'' = Inr (2 * 2 ^ 40)
   \<and> size_to_bytes world0 ''1.5 kb'' = Inr 1536
   \<and> (\<exists>e. size_to_bytes world0 ''5 KiB'' = Inl e)"
proof -
  have f2: "py_float world0 ''2'' = Some 2"
    by (simp add: world0_def decimal_float_def strip_def is_space_def digit_of_def)
  have f15: "py_float world0 ''1.5'' = Some (3 / 2)"
    by (simp add: world0_def decimal_float_def strip_def is_space_def digit_of_def)
  have s15: "split_ws (strip ''1.5 kb'') = [''1.5'', ''kb'']"
    by (simp add: strip_def split_ws_def is_space_def)
  have s5: "split_ws (strip ''5 KiB'') = [''5'', ''KiB'']"
    by (simp add: strip_def split_ws_def is_space_def)
  have out: "\<forall>v u. split_ws (strip ''5 KiB'') = [v, u] \<longrightarrow> upper u \<notin> fst ` set spec_unit_table"
    by (simp add: s5 upper_def upper_char_def spec_unit_table_def)
  note T = size_to_bytes_unit_table [of world0]
  from T f2 have a: "size_to_bytes world0 ''2 TiB'' = Inr (2 * 2 ^ 40)"
    by blast
  from T s15 f15 have "size_to_bytes world0 ''1.5 kb'' =
      (case map_of spec_unit_table (upper ''kb'') of
         Some f \<Rightarrow> Inr (3 / 2 * f) | None \<Rightarrow> Inl ValueError)"
    by blast
  then have b: "size_to_bytes world0 ''1.5 kb'' = Inr 1536"
    by (simp add: upper_def upper_char_def spec_unit_table_def)
  from T out have c: "\<exists>e. size_to_bytes world0 ''5 KiB'' = Inl e"
    by blast
  from a b c show ?thesis by blast
qed

section \<open>The catalog-delete helper\<close>




section \<open>Retention durations\<close>

lemma str_int_2: "str_int 2 = ''2''"
  by (simp add: str_int_def str_nat.simps digit_char_def)

text \<open>
  C7. When the daily bound and the monthly bound are both positive integers, the
  duration that is issued is the monthly one: \<^verbatim>\<open>set_max_retention_lock_period_pool\<close>
  chooses and sends the monthly value in years (daily 30 and monthly 2 give
  \<^verbatim>\<open>"2year"\<close>, not \<^verbatim>\<open>"30day"\<close>), and \<^verbatim>\<open>set_retention_lock\<close> sends the tape's lock
  command with the monthly value in years.
\<close>

theorem monthly_overrides_daily:
  "(maximum_retention_lock_period_daily_backup_in_days self = YInt d \<and> 0 < d
    \<and> maximum_retention_lock_period_monthly_backup_in_years self = YInt m \<and> 0 < m \<longrightarrow>
      max_retention_lock self = Some (str_int m @ ''year'')
      \<and> (0 < length (tape_list self) \<and> pool_retention_lock_enabled self \<longrightarrow>
           set_max_retention_lock_period_pool self =
             Some (''mtree retention-lock set max-retention-period '' @ str_int m @ ''year''
                   @ '' mtree /data/col1/'' @ pool self)))
   \<and> (maximum_retention_lock_period_daily_backup_in_days self = YInt 30
      \<and> maximum_retention_lock_period_monthly_backup_in_years self = YInt 2 \<longrightarrow>
        max_retention_lock self = Some ''2year'')
   \<and> (retention_lock_period_for_tapes_in_days self = YInt d \<and> 0 < d
      \<and> retention_lock_period_for_tapes_for_monthly_in_years self = YInt m \<and> 0 < m \<longrightarrow>
        retention_lock_period self = Some (str_int m @ ''year'')
        \<and> fst (set_retention_lock W self tape_info) =
            [''vtl tape modify '' @ barcode tape_info @ '' pool '' @ pool_name tape_info
               @ '' retention-lock '' @ str_int m @ ''year'',
             ''vtl tape show pool '' @ pool_name tape_info @ '' barcode '' @ barcode tape_info])"
proof (intro conjI impI)
  assume a: "maximum_retention_lock_period_daily_backup_in_days self = YInt d \<and> 0 < d
    \<and> maximum_retention_lock_period_monthly_backup_in_years self = YInt m \<and> 0 < m"
  then show mx: "max_retention_lock self = Some (str_int m @ ''year'')"
    by (simp add: max_retention_lock_def)
  assume "0 < length (tape_list self) \<and> pool_retention_lock_enabled self"
  with mx show "set_max_retention_lock_period_pool self =
      Some (''mtree retention-lock set max-retention-period '' @ str_int m @ ''year''
            @ '' mtree /data/col1/'' @ pool self)"
    by (simp add: set_max_retention_lock_period_pool_def)
next
  assume "maximum_retention_lock_period_daily_backup_in_days self = YInt 30
      \<and> maximum_retention_lock_period_monthly_backup_in_years self = YInt 2"
  then show "max_retention_lock self = Some ''2year''"
    by (simp add: max_retention_lock_def str_int_2)
next
  assume a: "retention_lock_period_for_tapes_in_days self = YInt d \<and> 0 < d
      \<and> retention_lock_period_for_tapes_for_monthly_in_years self = YInt m \<and> 0 < m"
  then show p: "retention_lock_period self = Some (str_int m @ ''year'')"
    by (simp add: retention_lock_period_def)
  then show "fst (set_retention_lock W self tape_info) =
            [''vtl tape modify '' @ barcode tape_info @ '' pool '' @ pool_name tape_info
               @ '' retention-lock '' @ str_int m @ ''year'',
             ''vtl tape show pool '' @ pool_name tape_info @ '' barcode '' @ barcode tape_info]"
    by (simp add: set_retention_lock_def set_lock_command_def show_tape_command_def Let_def)
qed

theorem monthly_overrides_daily_witness:
  "max_retention_lock example_open_system = Some ''2year''
   \<and> set_max_retention_lock_period_pool example_open_system =
       Some ''mtree retention-lock set max-retention-period 2year mtree /data/col1/POOL''
   \<and> retention_lock_period example_open_system = Some ''2year''
   \<and> fst (set_retention_lock world0 example_open_system example_tape) =
       [''vtl tape modify A55004LA pool POOL retention-lock 2year'',
        ''vtl tape show pool POOL barcode A55004LA'']"
  using monthly_overrides_daily [of example_open_system 30 2 world0 example_tape]
  by (simp add: example_open_system_def example_tape_def str_int_2)

section \<open>The reclaim pipeline\<close>

lemma reclaim_tape_created_mono:
  assumes "reclaim_tape W self t b = Inr b'"
  shows "set (created_tapes b) \<subseteq> set (created_tapes b')"
  using assms by (auto simp: reclaim_tape_def split: sum.splits if_splits)

lemma remove_loop_created_mono:
  "remove_loop W self ts b = Inr b' \<Longrightarrow> set (created_tapes b) \<subseteq> set (created_tapes b')"
proof (induction ts arbitrary: b)
  case Nil
  then show ?case by simp
next
  case (Cons t ts)
  from Cons.prems obtain b1 where s: "reclaim_tape W self t b = Inr b1"
    and r: "remove_loop W self ts b1 = Inr b'"
    by (auto split: sum.splits)
  from reclaim_tape_created_mono [OF s] Cons.IH [OF r] show ?case by blast
qed

lemma reclaim_tape_labelled:
  assumes "five_stages_succeed W self t" and "label_tape W self t = Inr labeling"
  shows "reclaim_tape W self t b = Inr (b\<lparr>created_tapes := created_tapes b @ [barcode t]\<rparr>)"
  using assms by (simp add: reclaim_tape_def five_stages_succeed_def)

lemma remove_loop_labelled:
  "remove_loop W self ts b = Inr b' \<Longrightarrow> t \<in> set ts \<Longrightarrow> five_stages_succeed W self t
   \<Longrightarrow> barcode t \<in> set (created_tapes b')"
proof (induction ts arbitrary: b)
  case Nil
  then show ?case by simp
next
  case (Cons u ts)
  from Cons.prems(1) obtain b1 where s: "reclaim_tape W self u b = Inr b1"
    and r: "remove_loop W self ts b1 = Inr b'"
    by (auto split: sum.splits)
  show ?case
  proof (cases "t = u")
    case True
    from s True Cons.prems(3) obtain labeling where "label_tape W self t = Inr labeling"
      by (auto simp: reclaim_tape_def five_stages_succeed_def split: sum.splits)
    from reclaim_tape_labelled [OF Cons.prems(3) this, of b] s True
    have "barcode t \<in> set (created_tapes b1)" by auto
    with remove_loop_created_mono [OF r] show ?thesis by blast
  next
    case False
    with Cons.prems(2) have "t \<in> set ts" by simp
    from Cons.IH [OF r this Cons.prems(3)] show ?thesis .
  qed
qed

lemma example_five_stages: "five_stages_succeed label_fails_world example_reset example_rl_tape"
  by (simp add: five_stages_succeed_def label_fails_world_def world0_def example_reset_def
      example_rl_tape_def run_nsrmm_command_def export_tape_from_library_def
      search_slot_number_def trailing_digits_def library_name_of_def execute_ssh_command_def
      strip_def execute_tape_remove_commmand_def create_tape_def split_ws_def is_space_def
      decimal_int_def digit_of_def import_tape_from_library_def)

lemma example_label_fails: "label_tape label_fails_world example_reset example_rl_tape = Inr False"
  by (simp add: label_tape_def label_fails_world_def example_reset_def run_nsrjb_command_def)

text \<open>
  C4. A tape whose catalog delete, export, remove, create and import all succeed is
  appended to \<open>created_tapes\<close> once the labelling command has returned, whether
  it reports success or failure, and no failure bucket changes (there is none for
  labelling); at the end of the batch its barcode is in \<open>created_tapes\<close>.
\<close>

theorem success_recorded_whatever_label_reports:
  "(five_stages_succeed W self t \<and> label_tape W self t = Inr labeling \<longrightarrow>
      reclaim_tape W self t b = Inr (b\<lparr>created_tapes := created_tapes b @ [barcode t]\<rparr>))
   \<and> (five_stages_succeed W self t \<and> t \<in> set ts \<and> remove_loop W self ts b = Inr b' \<longrightarrow>
        barcode t \<in> set (created_tapes b'))"
  using reclaim_tape_labelled remove_loop_labelled by blast

theorem success_recorded_whatever_label_reports_witness:
  "label_tape label_fails_world example_reset example_rl_tape = Inr False
   \<and> remove_retention_locked_tapes label_fails_world example_reset =
       Inr (empty_buckets\<lparr>created_tapes := [''A55157LA'']\<rparr>)"
proof -
  have "reclaim_tape label_fails_world example_reset example_rl_tape empty_buckets =
      Inr (empty_buckets\<lparr>created_tapes := created_tapes empty_buckets @ [barcode example_rl_tape]\<rparr>)"
    using success_recorded_whatever_label_reports
      [of label_fails_world example_reset example_rl_tape False empty_buckets]
      example_five_stages example_label_fails by blast
  then have "remove_retention_locked_tapes label_fails_world example_reset =
       Inr (empty_buckets\<lparr>created_tapes := [''A55157LA'']\<rparr>)"
    by (simp add: remove_retention_locked_tapes_def example_reset_def empty_buckets_def
        example_rl_tape_def)
  with example_label_fails show ?thesis by blast
qed

text \<open>
  C5. The export stage as the code has it. For a tape whose location does not end
  in a slot number, or whose library name is \<^verbatim>\<open>vault\<close>, \<^verbatim>\<open>export_tape_from_library\<close>
  sends no command and returns \<^verbatim>\<open>None\<close>; the pipeline tests the result for truth, so
  after a successful catalog delete such a tape is put into the export failure bucket
  and no later stage runs. With a slot number and another library the stage succeeds
  exactly when the export command does. A tape in the vault would fail the import
  stage.
\<close>

theorem export_none_counts_as_failure:
  "(search_slot_number (location t) = None \<or> library_name_of (location t) = ''vault'' \<longrightarrow>
      export_tape_from_library W self t = None)
   \<and> (export_tape_from_library W self t = None
        \<and> run_nsrmm_command W [''nsrmm'', ''-d'', barcode t] = Inr True \<longrightarrow>
        reclaim_tape W self t b =
          Inr (b\<lparr>failed_tape_while_export := failed_tape_while_export b @ [t]\<rparr>))
   \<and> (search_slot_number (location t) = Some slot
        \<and> library_name_of (location t) \<noteq> ''vault'' \<longrightarrow>
        export_tape_from_library W self t =
          Some (execute_ssh_command W
                  (''vtl export '' @ library_name_of (location t) @ '' slot '' @ slot)
                \<noteq> SshFalse))
   \<and> (library_name_of (location t) = ''vault'' \<longrightarrow> \<not> import_tape_from_library W self t)"
proof (intro conjI impI)
  assume "search_slot_number (location t) = None \<or> library_name_of (location t) = ''vault''"
  then show "export_tape_from_library W self t = None"
    by (auto simp: export_tape_from_library_def split: option.splits)
next
  assume "export_tape_from_library W self t = None
        \<and> run_nsrmm_command W [''nsrmm'', ''-d'', barcode t] = Inr True"
  then show "reclaim_tape W self t b =
          Inr (b\<lparr>failed_tape_while_export := failed_tape_while_export b @ [t]\<rparr>)"
    by (simp add: reclaim_tape_def)
next
  assume "search_slot_number (location t) = Some slot
        \<and> library_name_of (location t) \<noteq> ''vault''"
  then show "export_tape_from_library W self t =
          Some (execute_ssh_command W
                  (''vtl export '' @ library_name_of (location t) @ '' slot '' @ slot)
                \<noteq> SshFalse)"
    by (simp add: export_tape_from_library_def split: ssh_result.splits)
next
  assume "library_name_of (location t) = ''vault''"
  then show "\<not> import_tape_from_library W self t"
    by (simp add: import_tape_from_library_def)
qed

theorem export_none_counts_as_failure_witness:
  "export_tape_from_library world0 example_reset (example_rl_tape\<lparr>location := ''vault''\<rparr>) = None
   \<and> remove_loop world0 example_reset [example_rl_tape\<lparr>location := ''vault''\<rparr>] empty_buckets =
       Inr (empty_buckets\<lparr>failed_tape_while_export := [example_rl_tape\<lparr>location := ''vault''\<rparr>]\<rparr>)"
proof -
  let ?t = "example_rl_tape\<lparr>location := ''vault''\<rparr>"
  have v: "library_name_of (location ?t) = ''vault''"
    by (simp add: library_name_of_def)
  have d: "run_nsrmm_command world0 [''nsrmm'', ''-d'', barcode ?t] = Inr True"
    by (simp add: run_nsrmm_command_def world0_def)
  note T = export_none_counts_as_failure [where t = ?t and W = world0 and self = example_reset
      and b = empty_buckets]
  from T v have e: "export_tape_from_library world0 example_reset ?t = None"
    by blast
  with T d have "reclaim_tape world0 example_reset ?t empty_buckets =
      Inr (empty_buckets\<lparr>failed_tape_while_export := failed_tape_while_export empty_buckets @ [?t]\<rparr>)"
    by blast
  moreover have "failed_tape_while_export empty_buckets = []"
    by (simp add: empty_buckets_def)
  ultimately have "remove_loop world0 example_reset [?t] empty_buckets =
       Inr (empty_buckets\<lparr>failed_tape_while_export := [?t]\<rparr>)"
    by simp
  with e show ?thesis by blast
qed

section \<open>Usage eligibility\<close>

lemma check_usage_in_report_iff:
  "check_usage_in_report W self ti = Some True \<longleftrightarrow> first_placement_above_minimum W self ti"
  by (auto simp: check_usage_in_report_def first_placement_above_minimum_def
      split: option.splits yaml.splits sum.splits)

text \<open>
  C8 (amended). For a tape record whose usage field starts with a number \<open>x\<close>,
  \<^verbatim>\<open>check_used\<close> holds exactly when \<open>x\<close> is greater than 0 or the first placement
  record whose file name contains the barcode is larger than the configured minimum
  (with both time stamps readable); either alone is sufficient. A record with usage
  zero and no placement record containing its barcode is not eligible.
\<close>

theorem usage_eligibility_first_placement:
  "(split_ws (used ti) = u # rest \<and> py_float W u = Some x \<longrightarrow>
      check_used W self ti = Inr (0 < x \<or> first_placement_above_minimum W self ti))
   \<and> (split_ws (used ti) = u # rest \<and> py_float W u = Some 0
        \<and> (\<forall>p \<in> set (report self). \<not> contains (barcode ti) (file_name p)) \<longrightarrow>
        check_used W self ti = Inr False)"
proof (intro conjI impI)
  assume "split_ws (used ti) = u # rest \<and> py_float W u = Some x"
  then show "check_used W self ti = Inr (0 < x \<or> first_placement_above_minimum W self ti)"
    by (simp add: check_used_def check_usage_in_report_iff)
next
  assume a: "split_ws (used ti) = u # rest \<and> py_float W u = Some 0
        \<and> (\<forall>p \<in> set (report self). \<not> contains (barcode ti) (file_name p))"
  then have "find (\<lambda>p. contains (barcode ti) (file_name p)) (report self) = None"
    by (simp add: find_None_iff)
  then have "\<not> first_placement_above_minimum W self ti"
    by (simp add: first_placement_above_minimum_def)
  with a show "check_used W self ti = Inr False"
    by (simp add: check_used_def check_usage_in_report_iff)
qed

lemma f_00: "py_float world0 ''0.0'' = Some 0"
  by (simp add: world0_def decimal_float_def strip_def is_space_def digit_of_def)

lemma f_125: "py_float world0 ''12.5'' = Some (25 / 2)"
  by (simp add: world0_def decimal_float_def strip_def is_space_def digit_of_def)

lemma gib_1: "size_to_bytes world0 ''1 GiB'' = Inr (2 ^ 30)"
  by (simp add: size_to_bytes_def world0_def decimal_float_def strip_def split_ws_def
      is_space_def digit_of_def upper_def upper_char_def)

lemma gib_5: "size_to_bytes world0 ''5 GiB'' = Inr (5 * 2 ^ 30)"
  by (simp add: size_to_bytes_def world0_def decimal_float_def strip_def split_ws_def
      is_space_def digit_of_def upper_def upper_char_def)

lemma mib_512: "size_to_bytes world0 ''512 MiB'' = Inr (2 ^ 29)"
  by (simp add: size_to_bytes_def world0_def decimal_float_def strip_def split_ws_def
      is_space_def digit_of_def upper_def upper_char_def)

lemma py_float_placement_world: "py_float placement_world = py_float world0"
  by (simp add: placement_world_def)

lemma size_to_bytes_placement_world: "size_to_bytes placement_world s = size_to_bytes world0 s"
  unfolding size_to_bytes_def py_float_placement_world by (rule refl)

lemma strptime_fixed_example:
  "strptime_fixed ''2025/02/17 09:30:00'' =
     Some \<lparr>dt_ordinal = 739299, dt_hour = 9, dt_minute = 30, dt_second = 0,
            dt_microsecond = 0\<rparr>"
  by (simp add: strptime_fixed_def digit_of_def days_in_month_def is_leap_def ymd2ord_def
      upt_rec)

theorem usage_eligibility_first_placement_witness:
  "check_used world0 example_open_system example_tape = Inr True
   \<and> check_used world0 example_open_system (example_tape\<lparr>used := ''0.0 %''\<rparr>) = Inr False
   \<and> check_used placement_world (example_open_system\<lparr>report := [two_placements ! 1]\<rparr>)
        (example_tape\<lparr>used := ''0.0 %''\<rparr>) = Inr True"
proof -
  have s1: "split_ws (used example_tape) = [''12.5'', ''%'']"
    by (simp add: example_tape_def split_ws_def is_space_def)
  have s2: "split_ws (used (example_tape\<lparr>used := ''0.0 %''\<rparr>)) = [''0.0'', ''%'']"
    by (simp add: split_ws_def is_space_def)
  have n: "\<forall>p \<in> set (report example_open_system).
      \<not> contains (barcode (example_tape\<lparr>used := ''0.0 %''\<rparr>)) (file_name p)"
    by (simp add: example_open_system_def)
  from usage_eligibility_first_placement
    [of example_tape "''12.5''" "[''%'']" world0 "25 / 2" example_open_system] s1 f_125
  have a: "check_used world0 example_open_system example_tape = Inr True"
    by simp
  from usage_eligibility_first_placement
    [of "example_tape\<lparr>used := ''0.0 %''\<rparr>" "''0.0''" "[''%'']" world0 0 example_open_system]
    s2 f_00 n
  have b: "check_used world0 example_open_system (example_tape\<lparr>used := ''0.0 %''\<rparr>) = Inr False"
    by blast
  have f0: "py_float placement_world ''0.0'' = Some 0"
    using f_00 by (simp add: placement_world_def)
  have p: "first_placement_above_minimum placement_world
      (example_open_system\<lparr>report := [two_placements ! 1]\<rparr>)
      (example_tape\<lparr>used := ''0.0 %''\<rparr>)"
    using gib_1 gib_5 strptime_fixed_example
    by (simp add: first_placement_above_minimum_def two_placements_def example_tape_def
        example_open_system_def size_to_bytes_placement_world)
      (simp add: placement_world_def tape_time_format_def placement_time_format_def)
  from usage_eligibility_first_placement
    [of "example_tape\<lparr>used := ''0.0 %''\<rparr>" "''0.0''" "[''%'']" placement_world 0
        "example_open_system\<lparr>report := [two_placements ! 1]\<rparr>"]
    s2 f0 p
  have c: "check_used placement_world (example_open_system\<lparr>report := [two_placements ! 1]\<rparr>)
        (example_tape\<lparr>used := ''0.0 %''\<rparr>) = Inr True"
    by simp
  from a b c show ?thesis by blast
qed

text \<open>
  The claim as stated fails: a placement record containing the barcode and larger than
  the minimum exists, but an earlier, smaller one containing the barcode is the one
  the loop stops at, and the tape with usage zero is not eligible.
\<close>

theorem later_placement_above_minimum_counterexample:
  "contains (barcode example_tape) (file_name (two_placements ! 1))
   \<and> size_to_bytes world0 ''1 GiB'' = Inr (2 ^ 30)
   \<and> size_to_bytes world0 (file_size (two_placements ! 1)) = Inr (5 * 2 ^ 30)
   \<and> check_used world0 (example_open_system\<lparr>report := two_placements\<rparr>)
        (example_tape\<lparr>used := ''0.0 %''\<rparr>) = Inr False"
proof -
  have c: "contains (barcode example_tape) (file_name (two_placements ! 1))"
    by (simp add: example_tape_def two_placements_def)
  have s: "size_to_bytes world0 (file_size (two_placements ! 1)) = Inr (5 * 2 ^ 30)"
    using gib_5 by (simp add: two_placements_def)
  have u: "check_usage_in_report world0 (example_open_system\<lparr>report := two_placements\<rparr>)
        (example_tape\<lparr>used := ''0.0 %''\<rparr>) = Some False"
    using gib_1 mib_512
    by (simp add: check_usage_in_report_def example_open_system_def example_tape_def
        two_placements_def)
  have "check_used world0 (example_open_system\<lparr>report := two_placements\<rparr>)
        (example_tape\<lparr>used := ''0.0 %''\<rparr>) = Inr False"
    using u f_00 by (simp add: check_used_def split_ws_def is_space_def)
  with c s gib_1 show ?thesis by blast
qed

section \<open>Selection of tapes for the lock\<close>

lemma contains_iff: "contains sub s \<longleftrightarrow> (\<exists>ps ss. s = ps @ sub @ ss)"
proof (induction s)
  case Nil
  then show ?case by auto
next
  case (Cons c cs)
  show ?case
  proof
    assume "contains sub (c # cs)"
    then consider "take (length sub) (c # cs) = sub" | "contains sub cs" by auto
    then show "\<exists>ps ss. c # cs = ps @ sub @ ss"
    proof cases
      case 1
      then have "c # cs = [] @ sub @ drop (length sub) (c # cs)"
        by (metis append_Nil append_take_drop_id)
      then show ?thesis by blast
    next
      case 2
      with Cons.IH obtain ps ss where "cs = ps @ sub @ ss" by blast
      then have "c # cs = (c # ps) @ sub @ ss" by simp
      then show ?thesis by blast
    qed
  next
    assume "\<exists>ps ss. c # cs = ps @ sub @ ss"
    then obtain ps ss where e: "c # cs = ps @ sub @ ss" by blast
    show "contains sub (c # cs)"
    proof (cases ps)
      case Nil
      with e have "take (length sub) (c # cs) = sub" by simp
      then show ?thesis by simp
    next
      case (Cons p ps')
      with e have "cs = ps' @ sub @ ss" by simp
      with Cons.IH have "contains sub cs" by blast
      then show ?thesis by simp
    qed
  qed
qed

lemma strip_decompose: "\<exists>a b. s = a @ strip s @ b"
proof -
  have "s = takeWhile is_space s @ dropWhile is_space s" by simp
  moreover have "dropWhile is_space s
      = rev (dropWhile is_space (rev (dropWhile is_space s)))
        @ rev (takeWhile is_space (rev (dropWhile is_space s)))"
    by (metis rev_append rev_rev_ident takeWhile_dropWhile_id)
  ultimately have "s = takeWhile is_space s @ strip s
      @ rev (takeWhile is_space (rev (dropWhile is_space s)))"
    by (simp add: strip_def)
  then show ?thesis by blast
qed

lemma contains_RL_strip: "contains ''RL'' (strip s) \<longleftrightarrow> contains ''RL'' s"
proof
  assume "contains ''RL'' (strip s)"
  then obtain ps ss where "strip s = ps @ ''RL'' @ ss"
    using contains_iff by blast
  moreover obtain a b where "s = a @ strip s @ b"
    using strip_decompose by blast
  ultimately have "s = (a @ ps) @ ''RL'' @ (ss @ b)" by simp
  then show "contains ''RL'' s"
    using contains_iff by blast
next
  assume "contains ''RL'' s"
  then obtain ps ss where s: "s = ps @ ''RL'' @ ss"
    using contains_iff by blast
  have nR: "\<not> is_space CHR ''R''" and nL: "\<not> is_space CHR ''L''"
    by (simp_all add: is_space_def)
  from s have "s = ps @ CHR ''R'' # (CHR ''L'' # ss)" by simp
  with nR have d1: "dropWhile is_space s = dropWhile is_space ps @ CHR ''R'' # CHR ''L'' # ss"
    by (simp add: dropWhile_append3)
  then have "rev (dropWhile is_space s)
      = rev ss @ CHR ''L'' # (CHR ''R'' # rev (dropWhile is_space ps))"
    by simp
  with nL have "dropWhile is_space (rev (dropWhile is_space s))
      = dropWhile is_space (rev ss) @ CHR ''L'' # CHR ''R'' # rev (dropWhile is_space ps)"
    by (simp add: dropWhile_append3)
  then have "strip s = dropWhile is_space ps @ ''RL'' @ rev (dropWhile is_space (rev ss))"
    by (simp add: strip_def)
  then show "contains ''RL'' (strip s)"
    using contains_iff by blast
qed

lemma py_int_of_of_int: "py_int_of (of_int z) = z"
  by (simp add: py_int_of_def)

lemma timestamp_midnight:
  "py_int_of (timestamp (midnight d)) = (dt_ordinal d - 719163) * 86400"
proof -
  have "timestamp (midnight d) = of_int ((dt_ordinal d - 719163) * 86400)"
    by (simp add: timestamp_def midnight_def)
  then show ?thesis by (simp only: py_int_of_of_int)
qed

lemma check_modification_date_eq:
  "check_modification_date W ti mech =
     (case strptime W (modification_time ti) tape_time_format of
        None \<Rightarrow> Inl ValueError
      | Some md \<Rightarrow> Inr (modified_on W mech ti))"
proof (cases "strptime W (modification_time ti) tape_time_format")
  case None
  then show ?thesis by (simp add: check_modification_date_def)
next
  case (Some md)
  from Some show ?thesis
    by (auto simp: check_modification_date_def modified_on_def Let_def timestamp_midnight
        strftime_strptime_def minus_one_day_def)
qed

lemma split_on_not_Nil: "split_on sep s \<noteq> []"
  by (induction sep s rule: split_on.induct) (auto split: list.splits)

lemma get_tapes_loop_step:
  "get_tapes_loop W self (l # ls) acc =
     (case tape_of_line l of
        None \<Rightarrow> get_tapes_loop W self ls acc
      | Some ti \<Rightarrow>
          (case check_used W self ti of
             Inl e \<Rightarrow> (acc, Some e)
           | Inr usage \<Rightarrow>
               (case check_modification_date W ti (mechanism self) of
                  Inl e \<Rightarrow> (acc, Some e)
                | Inr last_modified \<Rightarrow>
                    (if contains ''slot'' (location ti) \<and> usage \<and> check_state ti \<and> last_modified
                     then get_tapes_loop W self ls (acc @ [ti])
                     else get_tapes_loop W self ls acc))))"
proof (cases "split_on ''  '' l")
  case Nil
  then show ?thesis by (simp add: split_on_not_Nil)
next
  case (Cons first others)
  then show ?thesis
    by (simp add: tape_of_line_def Let_def split: sum.splits)
qed

declare get_tapes_loop.simps(2) [simp del]

lemma check_state_iff: "check_state ti \<longleftrightarrow> \<not> contains ''RL'' (state ti)"
  by (simp add: check_state_def contains_RL_strip)

lemma lock_selected_step:
  assumes "check_used W self ti = Inr usage"
    and "check_modification_date W ti (mechanism self) = Inr last_modified"
  shows "(contains ''slot'' (location ti) \<and> usage \<and> check_state ti \<and> last_modified)
         \<longleftrightarrow> lock_selected W self ti"
proof -
  from assms(2) have "last_modified = modified_on W (mechanism self) ti"
    by (simp add: check_modification_date_eq split: option.splits)
  with assms(1) show ?thesis
    by (auto simp: lock_selected_def check_state_iff)
qed

lemma lock_selected_raises:
  assumes "check_used W self ti = Inl e \<or> check_modification_date W ti (mechanism self) = Inl e"
  shows "\<not> lock_selected W self ti"
  using assms
  by (auto simp: lock_selected_def check_modification_date_eq modified_on_def
      split: option.splits)

lemma tape_records_Cons:
  "tape_records (l # ls) =
     (case tape_of_line l of None \<Rightarrow> tape_records ls | Some ti \<Rightarrow> ti # tape_records ls)"
  by (simp add: tape_records_def map_filter_simps split: option.splits)

lemma tape_records_Nil: "tape_records [] = []"
  by (simp add: tape_records_def map_filter_simps)

lemma get_tapes_loop_filter:
  "\<exists>k \<le> length ls.
     fst (get_tapes_loop W self ls acc)
       = acc @ filter (lock_selected W self) (tape_records (take k ls))
     \<and> (snd (get_tapes_loop W self ls acc) = None \<longrightarrow> k = length ls)"
proof (induction ls arbitrary: acc)
  case Nil
  then show ?case by (simp add: tape_records_Nil)
next
  case (Cons l ls)
  note step = get_tapes_loop_step [of W self l ls acc]
  show ?case
  proof (cases "tape_of_line l")
    case None
    with step have e: "get_tapes_loop W self (l # ls) acc = get_tapes_loop W self ls acc"
      by simp
    from Cons.IH [of acc] obtain k where kk: "k \<le> length ls
      \<and> fst (get_tapes_loop W self ls acc)
         = acc @ filter (lock_selected W self) (tape_records (take k ls))
      \<and> (snd (get_tapes_loop W self ls acc) = None \<longrightarrow> k = length ls)" ..
    note k = kk [THEN conjunct1] kk [THEN conjunct2, THEN conjunct1]
      kk [THEN conjunct2, THEN conjunct2]
    from None have "tape_records (take (Suc k) (l # ls)) = tape_records (take k ls)"
      by (simp add: tape_records_Cons)
    with k e have "Suc k \<le> length (l # ls)
        \<and> fst (get_tapes_loop W self (l # ls) acc)
            = acc @ filter (lock_selected W self) (tape_records (take (Suc k) (l # ls)))
        \<and> (snd (get_tapes_loop W self (l # ls) acc) = None \<longrightarrow> Suc k = length (l # ls))"
      by simp
    then show ?thesis ..
  next
    case (Some ti)
    have stop: "get_tapes_loop W self (l # ls) acc = (acc, Some e) \<Longrightarrow> ?thesis" for e
    proof -
      assume "get_tapes_loop W self (l # ls) acc = (acc, Some e)"
      then have "0 \<le> length (l # ls)
        \<and> fst (get_tapes_loop W self (l # ls) acc)
            = acc @ filter (lock_selected W self) (tape_records (take 0 (l # ls)))
        \<and> (snd (get_tapes_loop W self (l # ls) acc) = None \<longrightarrow> 0 = length (l # ls))"
        by (simp add: tape_records_Nil)
      then show ?thesis ..
    qed
    show ?thesis
    proof (cases "check_used W self ti")
      case (Inl e)
      with Some step have "get_tapes_loop W self (l # ls) acc = (acc, Some e)" by simp
      then show ?thesis by (rule stop)
    next
      case (Inr usage)
      show ?thesis
      proof (cases "check_modification_date W ti (mechanism self)")
        case (Inl e)
        with Some Inr step have "get_tapes_loop W self (l # ls) acc = (acc, Some e)" by simp
        then show ?thesis by (rule stop)
      next
        case lm: (Inr last_modified)
        let ?acc' = "if lock_selected W self ti then acc @ [ti] else acc"
        from Some Inr lm step lock_selected_step [OF Inr lm]
        have e: "get_tapes_loop W self (l # ls) acc = get_tapes_loop W self ls ?acc'"
          by simp
        from Cons.IH [of ?acc'] obtain k where kk: "k \<le> length ls
          \<and> fst (get_tapes_loop W self ls ?acc')
             = ?acc' @ filter (lock_selected W self) (tape_records (take k ls))
          \<and> (snd (get_tapes_loop W self ls ?acc') = None \<longrightarrow> k = length ls)" ..
        note k = kk [THEN conjunct1] kk [THEN conjunct2, THEN conjunct1]
          kk [THEN conjunct2, THEN conjunct2]
        from Some have "tape_records (take (Suc k) (l # ls)) = ti # tape_records (take k ls)"
          by (simp add: tape_records_Cons)
        with k e have "Suc k \<le> length (l # ls)
            \<and> fst (get_tapes_loop W self (l # ls) acc)
                = acc @ filter (lock_selected W self) (tape_records (take (Suc k) (l # ls)))
            \<and> (snd (get_tapes_loop W self (l # ls) acc) = None \<longrightarrow> Suc k = length (l # ls))"
          by simp
        then show ?thesis ..
      qed
    qed
  qed
qed

text \<open>
  C2. In the lock-apply workflow every record parsed from the listing is selected if
  and only if its location names a slot, it is usage-eligible, its state does not
  contain \<^verbatim>\<open>RL\<close>, and its modification date is the calendar day of \<open>now\<close> when the
  mechanism is 1 or the day before when the mechanism is 2. When the loop ends without
  an exception this holds for every line; in general the list is exactly the selected
  records of the lines read. Any other mechanism gives a non-match, not an error.
\<close>

theorem lock_apply_selection:
  "(get_tapes_loop W self ls [] = (res, None) \<longrightarrow>
      (\<forall>ti. ti \<in> set res \<longleftrightarrow> ti \<in> set (tape_records ls) \<and> lock_selected W self ti))
   \<and> (\<exists>k \<le> length ls.
        fst (get_tapes_loop W self ls []) = filter (lock_selected W self) (tape_records (take k ls)))
   \<and> (lock_selected W self t \<longleftrightarrow>
        contains ''slot'' (location t) \<and> check_used W self t = Inr True
        \<and> \<not> contains ''RL'' (state t)
        \<and> (\<exists>d. strptime W (modification_time t) tape_time_format = Some d
             \<and> (py_eq_int (mechanism self) 1 \<and> dt_ordinal d = dt_ordinal (now W)
                 \<or> py_eq_int (mechanism self) 2 \<and> dt_ordinal d = dt_ordinal (now W) - 1)))
   \<and> (strptime W (modification_time t) tape_time_format = Some d
        \<and> \<not> py_eq_int mech 1 \<and> \<not> py_eq_int mech 2 \<longrightarrow>
        check_modification_date W t mech = Inr False)"
proof (intro conjI impI)
  assume r: "get_tapes_loop W self ls [] = (res, None)"
  from get_tapes_loop_filter [of ls W self "[]"] r
  have "res = filter (lock_selected W self) (tape_records ls)"
    by auto
  then show "\<forall>ti. ti \<in> set res \<longleftrightarrow> ti \<in> set (tape_records ls) \<and> lock_selected W self ti"
    by auto
next
  from get_tapes_loop_filter [of ls W self "[]"]
  show "\<exists>k \<le> length ls.
        fst (get_tapes_loop W self ls []) = filter (lock_selected W self) (tape_records (take k ls))"
    by auto
next
  show "lock_selected W self t \<longleftrightarrow>
        contains ''slot'' (location t) \<and> check_used W self t = Inr True
        \<and> \<not> contains ''RL'' (state t)
        \<and> (\<exists>d. strptime W (modification_time t) tape_time_format = Some d
             \<and> (py_eq_int (mechanism self) 1 \<and> dt_ordinal d = dt_ordinal (now W)
                 \<or> py_eq_int (mechanism self) 2 \<and> dt_ordinal d = dt_ordinal (now W) - 1))"
    by (auto simp: lock_selected_def modified_on_def split: option.splits)
next
  assume "strptime W (modification_time t) tape_time_format = Some d
        \<and> \<not> py_eq_int mech 1 \<and> \<not> py_eq_int mech 2"
  then show "check_modification_date W t mech = Inr False"
    by (simp add: check_modification_date_eq modified_on_def)
qed

lemma example_line_0: "tape_of_line (example_listing ! 0) = None"
  by (simp add: example_listing_def tape_of_line_def heading_def)

lemma example_line_1: "tape_of_line (example_listing ! 1) = None"
  by (simp add: example_listing_def tape_of_line_def heading_def)

lemma example_line_2: "tape_of_line (example_listing ! 2) = None"
  by (simp add: example_listing_def tape_of_line_def heading_def)

lemma example_line_3: "tape_of_line (example_listing ! 3) = Some example_tape"
  by (simp add: example_listing_def tape_of_line_def heading_def strip_def is_space_def
      example_tape_def)

lemma example_line_4:
  "tape_of_line (example_listing ! 4) =
     Some \<lparr>barcode = ''A55005LA'', pool_name = ''POOL'', location = ''Pool_TEST slot 715'',
           state = ''RO/RL*'', tape_size = ''5 GiB'', used = ''40.0 %'',
           modification_time = ''2025/02/17 10:00:00''\<rparr>"
  by (simp add: example_listing_def tape_of_line_def heading_def strip_def is_space_def)

lemma example_line_5: "tape_of_line (example_listing ! 5) = None"
  by (simp add: example_listing_def tape_of_line_def heading_def strip_def is_space_def)


lemma example_listing_split:
  "example_listing = [example_listing ! 0, example_listing ! 1, example_listing ! 2,
     example_listing ! 3, example_listing ! 4, example_listing ! 5]"
  by (simp add: example_listing_def)

lemma f_400: "py_float world0 ''40.0'' = Some 40"
  by (simp add: world0_def decimal_float_def strip_def is_space_def digit_of_def)

lemma example_tape_used: "check_used world0 example_open_system example_tape = Inr True"
  using f_125
  by (simp add: check_used_def example_tape_def split_ws_def is_space_def)

lemma example_tape_date:
  "check_modification_date world0 example_tape (mechanism example_open_system) = Inr True"
  using strptime_fixed_example
  by (simp add: check_modification_date_eq modified_on_def example_tape_def
      example_open_system_def world0_def)

lemma example_tape_state: "check_state example_tape"
  by (simp add: check_state_def example_tape_def strip_def is_space_def)

lemma example_locked_used:
  "check_used world0 example_open_system
     \<lparr>barcode = ''A55005LA'', pool_name = ''POOL'', location = ''Pool_TEST slot 715'',
      state = ''RO/RL*'', tape_size = ''5 GiB'', used = ''40.0 %'',
      modification_time = ''2025/02/17 10:00:00''\<rparr> = Inr True"
  using f_400
  by (simp add: check_used_def split_ws_def is_space_def)

lemma example_locked_date:
  "check_modification_date world0
     \<lparr>barcode = ''A55005LA'', pool_name = ''POOL'', location = ''Pool_TEST slot 715'',
      state = ''RO/RL*'', tape_size = ''5 GiB'', used = ''40.0 %'',
      modification_time = ''2025/02/17 10:00:00''\<rparr> (mechanism example_open_system) = Inr True"
  by (simp add: check_modification_date_eq modified_on_def example_open_system_def world0_def
      tape_time_format_def strptime_fixed_def digit_of_def days_in_month_def is_leap_def
      ymd2ord_def upt_rec)

lemma example_locked_state:
  "\<not> check_state
     \<lparr>barcode = ''A55005LA'', pool_name = ''POOL'', location = ''Pool_TEST slot 715'',
      state = ''RO/RL*'', tape_size = ''5 GiB'', used = ''40.0 %'',
      modification_time = ''2025/02/17 10:00:00''\<rparr>"
  by (simp add: check_state_def strip_def is_space_def)

lemma example_listing_loop:
  "get_tapes_loop world0 example_open_system example_listing [] = ([example_tape], None)"
proof -
  have "get_tapes_loop world0 example_open_system
      [example_listing ! 0, example_listing ! 1, example_listing ! 2,
       example_listing ! 3, example_listing ! 4, example_listing ! 5] []
      = ([example_tape], None)"
    by (simp only: get_tapes_loop_step example_line_0 example_line_1 example_line_2
        example_line_3 example_line_4 example_line_5 option.case sum.case
        example_tape_used example_tape_date example_tape_state example_locked_used
        example_locked_date example_locked_state get_tapes_loop.simps(1))
      (simp add: example_tape_def)
  with example_listing_split show ?thesis by simp
qed

theorem lock_apply_selection_witness:
  "get_tapes_loop world0 example_open_system example_listing [] = ([example_tape], None)
   \<and> example_tape \<in> set (tape_records example_listing)
   \<and> lock_selected world0 example_open_system example_tape"
proof -
  note T = lock_apply_selection [where W = world0 and self = example_open_system
      and ls = example_listing and res = "[example_tape]"]
  from T [THEN conjunct1] example_listing_loop
  have "\<forall>ti. ti \<in> set [example_tape]
      \<longleftrightarrow> ti \<in> set (tape_records example_listing) \<and> lock_selected world0 example_open_system ti"
    by (rule mp)
  then have "example_tape \<in> set [example_tape]
      \<longleftrightarrow> example_tape \<in> set (tape_records example_listing)
          \<and> lock_selected world0 example_open_system example_tape"
    by (rule spec)
  then have "example_tape \<in> set (tape_records example_listing)
          \<and> lock_selected world0 example_open_system example_tape"
    by simp
  with example_listing_loop show ?thesis by simp
qed

section \<open>The two tape parsers\<close>

lemma get_tapes_by_pool_loop_header:
  "i < 3 \<Longrightarrow>
   get_tapes_by_pool_loop W (l # ls) i acc = get_tapes_by_pool_loop W ls (Suc i) acc"
  by (cases "split_on ''  '' l") (simp_all add: split_on_not_Nil)

lemma get_tapes_by_pool_loop_separator:
  "3 \<le> i \<Longrightarrow> is_separator_line l \<Longrightarrow> get_tapes_by_pool_loop W (l # ls) i acc = (acc, None)"
  by (cases "split_on ''  '' l") (simp_all add: is_separator_line_def)

lemma get_tapes_by_pool_loop_short:
  assumes "3 \<le> i" and "\<not> is_separator_line l" and "rl_tape_of_line l = None"
  shows "get_tapes_by_pool_loop W (l # ls) i acc = (acc, Some IndexError)"
proof (cases "split_on ''  '' l")
  case Nil
  then show ?thesis by (simp add: split_on_not_Nil)
next
  case (Cons first others)
  from assms(3) Cons
  have len: "length (filter (\<lambda>tape_data. tape_data \<noteq> []) (map strip (first # others))) < 8"
    by (simp add: rl_tape_of_line_def Let_def del: filter.simps list.map split: if_splits)
  from assms(2) Cons have sep: "\<not> 1 < count_hyphen_0_2 first"
    by (simp add: is_separator_line_def)
  from assms(1) Cons len sep show ?thesis
    by (simp add: Let_def del: filter.simps list.map)
qed

lemma get_tapes_by_pool_loop_record:
  assumes "3 \<le> i" and "\<not> is_separator_line l" and "rl_tape_of_line l = Some ti"
  shows "get_tapes_by_pool_loop W (l # ls) i acc =
     (case check_retention_date W ti of
        Inl e \<Rightarrow> (acc @ (if barcode ti = ''TEST01L5'' then [ti] else []), Some e)
      | Inr c \<Rightarrow>
          get_tapes_by_pool_loop W ls (Suc i)
            (acc @ (if barcode ti = ''TEST01L5'' then [ti] else [])
                 @ (if reset_check_state ti \<and> c then [ti] else [])))"
proof (cases "split_on ''  '' l")
  case Nil
  then show ?thesis by (simp add: split_on_not_Nil)
next
  case (Cons first others)
  let ?tapes = "filter (\<lambda>tape_data. tape_data \<noteq> []) (map strip (first # others))"
  from assms(3) Cons have len: "\<not> length ?tapes < 8"
    by (simp add: rl_tape_of_line_def Let_def del: filter.simps list.map split: if_splits)
  from assms(3) Cons have ti: "\<lparr>barcode = ?tapes ! 0, pool_name = ?tapes ! 1, location = ?tapes ! 2,
       state = ?tapes ! 3, tape_size = ?tapes ! 4, retention_time = ?tapes ! 7\<rparr> = ti"
    by (simp add: rl_tape_of_line_def Let_def del: filter.simps list.map split: if_splits)
  from assms(2) Cons have sep: "\<not> 1 < count_hyphen_0_2 first"
    by (simp add: is_separator_line_def)
  from assms(1) have i: "\<not> Suc i \<le> 3" by simp
  have "get_tapes_by_pool_loop W (l # ls) i acc =
      (let acc1 = (if barcode ti = ''TEST01L5'' then acc @ [ti] else acc);
           st = reset_check_state ti
       in case check_retention_date W ti of
            Inl e \<Rightarrow> (acc1, Some e)
          | Inr c \<Rightarrow>
              (if st \<and> c then get_tapes_by_pool_loop W ls (Suc i) (acc1 @ [ti])
               else get_tapes_by_pool_loop W ls (Suc i) acc1))"
    unfolding get_tapes_by_pool_loop.simps(2) Cons list.case Let_def ti
    using len sep i by (simp del: filter.simps list.map)
  then show ?thesis
    by (simp add: Let_def split: sum.splits)
qed

declare get_tapes_by_pool_loop.simps(2) [simp del]

lemma get_tapes_by_pool_loop_keeps:
  "\<exists>rest. fst (get_tapes_by_pool_loop W ls i acc) = acc @ rest"
proof (induction ls arbitrary: i acc)
  case Nil
  then show ?case by simp
next
  case (Cons l ls)
  show ?case
  proof (cases "i < 3")
    case True
    with Cons.IH [of "Suc i" acc] show ?thesis
      by (simp add: get_tapes_by_pool_loop_header)
  next
    case False
    then have i: "3 \<le> i" by simp
    show ?thesis
    proof (cases "is_separator_line l")
      case True
      with i show ?thesis by (simp add: get_tapes_by_pool_loop_separator)
    next
      case sep: False
      show ?thesis
      proof (cases "rl_tape_of_line l")
        case None
        with i sep show ?thesis by (simp add: get_tapes_by_pool_loop_short)
      next
        case (Some ti)
        note step = get_tapes_by_pool_loop_record [OF i sep Some, of W ls acc]
        show ?thesis
        proof (cases "check_retention_date W ti")
          case (Inl e)
          with step show ?thesis by simp
        next
          case (Inr c)
          let ?acc' = "acc @ (if barcode ti = ''TEST01L5'' then [ti] else [])
                 @ (if reset_check_state ti \<and> c then [ti] else [])"
          from Cons.IH [of "Suc i" ?acc'] obtain rest where
            "fst (get_tapes_by_pool_loop W ls (Suc i) ?acc') = ?acc' @ rest" ..
          with step Inr have "fst (get_tapes_by_pool_loop W (l # ls) i acc)
              = acc @ ((if barcode ti = ''TEST01L5'' then [ti] else [])
                 @ (if reset_check_state ti \<and> c then [ti] else []) @ rest)"
            by simp
          then show ?thesis ..
        qed
      qed
    qed
  qed
qed

lemma get_tapes_loop_keeps: "\<exists>rest. fst (get_tapes_loop W self ls acc) = acc @ rest"
proof -
  from get_tapes_loop_filter [of ls W self acc] obtain k where
    "k \<le> length ls \<and> fst (get_tapes_loop W self ls acc)
       = acc @ filter (lock_selected W self) (tape_records (take k ls))
     \<and> (snd (get_tapes_loop W self ls acc) = None \<longrightarrow> k = length ls)" ..
  then have "fst (get_tapes_loop W self ls acc)
       = acc @ filter (lock_selected W self) (tape_records (take k ls))"
    by simp
  then show ?thesis ..
qed

lemma get_tapes_loop_drops:
  assumes "tape_of_line l = None"
  shows "get_tapes_loop W self (l # ls) acc = get_tapes_loop W self ls acc"
  using assms by (simp add: get_tapes_loop_step)

lemma tape_of_line_None_iff:
  "tape_of_line l = None \<longleftrightarrow>
     (strip (hd (split_on ''  '' l)) = []
      \<or> set (split_on ''  '' l) \<inter> set heading \<noteq> {}
      \<or> length (filter (\<lambda>tape_data. tape_data \<noteq> []) (map strip (split_on ''  '' l))) \<noteq> 8)"
proof (cases "split_on ''  '' l")
  case Nil
  then show ?thesis by (simp add: split_on_not_Nil)
next
  case (Cons first others)
  have short: "length (first # others) < 2
      \<Longrightarrow> length (filter (\<lambda>tape_data. tape_data \<noteq> []) (map strip (first # others))) \<noteq> 8"
  proof -
    assume "length (first # others) < 2"
    then have "length (map strip (first # others)) < 2" by simp
    moreover have "length (filter (\<lambda>tape_data. tape_data \<noteq> []) (map strip (first # others)))
        \<le> length (map strip (first # others))"
      by (rule length_filter_le)
    ultimately show ?thesis by linarith
  qed
  show ?thesis
    unfolding tape_of_line_def Cons list.case Let_def list.sel
    using short by (auto simp del: filter.simps list.map)
qed

lemma rl_tape_of_line_None_iff: "rl_tape_of_line l = None \<longleftrightarrow> length (fields_of_line l) < 8"
  by (simp add: rl_tape_of_line_def fields_of_line_def Let_def)

lemma reset_check_state_iff: "reset_check_state ti \<longleftrightarrow> contains ''RL'' (state ti)"
  by (simp add: reset_check_state_def contains_RL_strip)

lemma timestamp_whole_second:
  "dt_microsecond d = 0 \<Longrightarrow> of_int (py_int_of (timestamp d)) = timestamp d"
proof -
  assume "dt_microsecond d = 0"
  then have "timestamp d = of_int ((dt_ordinal d - 719163) * 86400
             + int (dt_hour d) * 3600 + int (dt_minute d) * 60 + int (dt_second d))"
    by (simp add: timestamp_def)
  then show ?thesis by (simp only: py_int_of_of_int)
qed

lemma check_retention_date_iff:
  "check_retention_date W ti = Inr True \<longleftrightarrow>
     retention_time ti \<noteq> ''n/a''
     \<and> (\<exists>d. strptime W (retention_time ti) tape_time_format = Some d
          \<and> of_int (py_int_of (timestamp d)) < timestamp (now W))"
  by (auto simp: check_retention_date_def Let_def split: option.splits)

text \<open>
  C6 (amended). \<^verbatim>\<open>get_tapes\<close> drops a line that is blank, has a heading or separator
  field, or does not have exactly eight fields, and goes on with the next line; an
  exception on a record ends its loop with the records accumulated so far.
  \<^verbatim>\<open>get_tapes_by_pool\<close> skips the first three lines, stops at a later line that starts
  with two hyphens, and on a later line with fewer than eight fields (a blank line
  too) it ends with IndexError and the records accumulated so far: it does not drop
  the line. Both loops only ever add to the accumulated list, and an empty or failed
  retrieval leaves the lock workflow's list as it was and empties the reclaim list.
\<close>

theorem parsers_fail_soft:
  "(strip (hd (split_on ''  '' l)) = [] \<or> set (split_on ''  '' l) \<inter> set heading \<noteq> {}
      \<or> length (fields_of_line l) \<noteq> 8 \<longrightarrow>
      get_tapes_loop W self (l # ls) acc = get_tapes_loop W self ls acc)
   \<and> (tape_of_line l = Some ti \<and> check_used W self ti = Inl e \<longrightarrow>
        get_tapes_loop W self (l # ls) acc = (acc, Some e))
   \<and> (\<exists>rest. fst (get_tapes_loop W self ls acc) = acc @ rest)
   \<and> (i < 3 \<longrightarrow>
        get_tapes_by_pool_loop W (l # ls) i racc = get_tapes_by_pool_loop W ls (Suc i) racc)
   \<and> (3 \<le> i \<and> is_separator_line l \<longrightarrow>
        get_tapes_by_pool_loop W (l # ls) i racc = (racc, None))
   \<and> (3 \<le> i \<and> \<not> is_separator_line l \<and> length (fields_of_line l) < 8 \<longrightarrow>
        get_tapes_by_pool_loop W (l # ls) i racc = (racc, Some IndexError))
   \<and> (\<exists>rest. fst (get_tapes_by_pool_loop W ls i racc) = racc @ rest)
   \<and> (ssh_falsy (execute_ssh_command W (get_tapes_command self)) \<longrightarrow> get_tapes W self = self)
   \<and> (ssh_falsy (execute_ssh_command W (get_tapes_by_pool_command rself)) \<longrightarrow>
        retention_locked_tape_list (get_tapes_by_pool W rself) = [])"
proof (intro conjI impI)
  assume "strip (hd (split_on ''  '' l)) = [] \<or> set (split_on ''  '' l) \<inter> set heading \<noteq> {}
      \<or> length (fields_of_line l) \<noteq> 8"
  then have "tape_of_line l = None"
    by (simp add: tape_of_line_None_iff fields_of_line_def)
  then show "get_tapes_loop W self (l # ls) acc = get_tapes_loop W self ls acc"
    by (rule get_tapes_loop_drops)
next
  assume "tape_of_line l = Some ti \<and> check_used W self ti = Inl e"
  then show "get_tapes_loop W self (l # ls) acc = (acc, Some e)"
    by (simp add: get_tapes_loop_step)
next
  show "\<exists>rest. fst (get_tapes_loop W self ls acc) = acc @ rest"
    by (rule get_tapes_loop_keeps)
next
  assume "i < 3"
  then show "get_tapes_by_pool_loop W (l # ls) i racc = get_tapes_by_pool_loop W ls (Suc i) racc"
    by (rule get_tapes_by_pool_loop_header)
next
  assume "3 \<le> i \<and> is_separator_line l"
  then show "get_tapes_by_pool_loop W (l # ls) i racc = (racc, None)"
    by (simp add: get_tapes_by_pool_loop_separator)
next
  assume "3 \<le> i \<and> \<not> is_separator_line l \<and> length (fields_of_line l) < 8"
  then show "get_tapes_by_pool_loop W (l # ls) i racc = (racc, Some IndexError)"
    by (simp add: get_tapes_by_pool_loop_short rl_tape_of_line_None_iff)
next
  show "\<exists>rest. fst (get_tapes_by_pool_loop W ls i racc) = racc @ rest"
    by (rule get_tapes_by_pool_loop_keeps)
next
  assume "ssh_falsy (execute_ssh_command W (get_tapes_command self))"
  then show "get_tapes W self = self"
    by (cases "execute_ssh_command W (get_tapes_command self)") (simp_all add: get_tapes_def)
next
  assume "ssh_falsy (execute_ssh_command W (get_tapes_by_pool_command rself))"
  then show "retention_locked_tape_list (get_tapes_by_pool W rself) = []"
    by (cases "execute_ssh_command W (get_tapes_by_pool_command rself)")
      (simp_all add: get_tapes_by_pool_def)
qed

lemma short_line_fields: "fields_of_line (example_retention_listing ! 3) = [''A55004LA'', ''POOL'', ''vault'']"
  by (simp add: example_retention_listing_def fields_of_line_def strip_def is_space_def)

lemma short_line_not_separator: "\<not> is_separator_line (example_retention_listing ! 3)"
  by (simp add: example_retention_listing_def is_separator_line_def count_hyphen_0_2_def)

lemma unreachable_falsy: "ssh_falsy (execute_ssh_command unreachable_world command)"
  by (simp add: unreachable_world_def execute_ssh_command_def)

theorem parsers_fail_soft_witness:
  "get_tapes_loop world0 example_open_system [example_listing ! 5] [example_tape]
     = ([example_tape], None)
   \<and> get_tapes_by_pool_loop world0 [example_retention_listing ! 3] 3 [example_rl_tape]
     = ([example_rl_tape], Some IndexError)
   \<and> get_tapes unreachable_world example_open_system = example_open_system
   \<and> retention_locked_tape_list (get_tapes_by_pool unreachable_world example_reset) = []"
proof -
  have d: "length (fields_of_line (example_listing ! 5)) \<noteq> 8"
    by (simp add: example_listing_def fields_of_line_def strip_def is_space_def)
  from parsers_fail_soft [where l = "example_listing ! 5" and W = world0
      and self = example_open_system and ls = "[]" and acc = "[example_tape]", THEN conjunct1] d
  have a: "get_tapes_loop world0 example_open_system [example_listing ! 5] [example_tape]
     = ([example_tape], None)"
    by simp
  have s: "3 \<le> (3::nat) \<and> \<not> is_separator_line (example_retention_listing ! 3)
      \<and> length (fields_of_line (example_retention_listing ! 3)) < 8"
    using short_line_not_separator by (simp add: short_line_fields)
  note T = parsers_fail_soft [where l = "example_retention_listing ! 3" and W = unreachable_world
      and self = example_open_system and ls = "[]" and i = 3 and racc = "[example_rl_tape]"
      and rself = example_reset]
  from parsers_fail_soft [where l = "example_retention_listing ! 3" and W = world0
      and ls = "[]" and i = 3 and racc = "[example_rl_tape]"] s
  have b: "get_tapes_by_pool_loop world0 [example_retention_listing ! 3] 3 [example_rl_tape]
     = ([example_rl_tape], Some IndexError)"
    by simp
  from T unreachable_falsy
  have c: "get_tapes unreachable_world example_open_system = example_open_system"
    by simp
  from T unreachable_falsy
  have e: "retention_locked_tape_list (get_tapes_by_pool unreachable_world example_reset) = []"
    by simp
  from a b c e show ?thesis by simp
qed

lemma retention_line_record: "rl_tape_of_line (example_retention_listing ! 4) = Some example_rl_tape"
  by (simp add: example_retention_listing_def rl_tape_of_line_def strip_def is_space_def
      example_rl_tape_def)

lemma retention_line_not_separator: "\<not> is_separator_line (example_retention_listing ! 4)"
  by (simp add: example_retention_listing_def is_separator_line_def count_hyphen_0_2_def)

lemma example_rl_tape_expired: "check_retention_date world0 example_rl_tape = Inr True"
  by (simp add: check_retention_date_def example_rl_tape_def world0_def tape_time_format_def
      strptime_fixed_def digit_of_def days_in_month_def is_leap_def ymd2ord_def upt_rec
      timestamp_def py_int_of_def Let_def)

lemma example_rl_tape_locked: "reset_check_state example_rl_tape"
  by (simp add: reset_check_state_iff example_rl_tape_def)

lemma example_rl_tape_barcode: "barcode example_rl_tape \<noteq> ''TEST01L5''"
  by (simp add: example_rl_tape_def)

text \<open>
  The claim as stated fails for the reclaim parser: a line of three fields before the
  expired tape ends the parse with an empty list, while the same listing without that
  line yields the tape.
\<close>

theorem short_line_ends_reclaim_parse_counterexample:
  "get_tapes_by_pool_loop world0
     [example_retention_listing ! 0, example_retention_listing ! 1,
      example_retention_listing ! 2, example_retention_listing ! 3,
      example_retention_listing ! 4] 0 [] = ([], Some IndexError)
   \<and> get_tapes_by_pool_loop world0
     [example_retention_listing ! 0, example_retention_listing ! 1,
      example_retention_listing ! 2, example_retention_listing ! 4] 0 []
     = ([example_rl_tape], None)"
proof -
  have s: "rl_tape_of_line (example_retention_listing ! 3) = None"
    by (simp add: rl_tape_of_line_None_iff short_line_fields)
  have a: "get_tapes_by_pool_loop world0
     [example_retention_listing ! 3, example_retention_listing ! 4] 3 [] = ([], Some IndexError)"
    using short_line_not_separator s by (simp add: get_tapes_by_pool_loop_short)
  have b: "get_tapes_by_pool_loop world0 [example_retention_listing ! 4] 3 []
     = ([example_rl_tape], None)"
    using get_tapes_by_pool_loop_record
      [OF _ retention_line_not_separator retention_line_record, of 3 world0 "[]" "[]"]
      example_rl_tape_expired example_rl_tape_locked example_rl_tape_barcode
    by simp
  from a b show ?thesis
    by (simp add: get_tapes_by_pool_loop_header numeral_3_eq_3)
qed

text \<open>
  C1. What the reclaim parser does with a line that yields a record: the record is
  appended when its state contains \<^verbatim>\<open>RL\<close> and its retention time is not \<^verbatim>\<open>n/a\<close> and
  lies strictly before \<open>now\<close>; and, before that test, it is appended whenever its
  barcode is \<^verbatim>\<open>TEST01L5\<close>, whatever its state and retention time.
\<close>

theorem reclaim_selection_step:
  "(3 \<le> i \<and> \<not> is_separator_line l \<and> rl_tape_of_line l = Some ti
      \<and> check_retention_date W ti = Inr c \<longrightarrow>
      get_tapes_by_pool_loop W (l # ls) i acc =
        get_tapes_by_pool_loop W ls (Suc i)
          (acc @ (if barcode ti = ''TEST01L5'' then [ti] else [])
               @ (if contains ''RL'' (state ti) \<and> c then [ti] else [])))
   \<and> (check_retention_date W ti = Inr True \<longleftrightarrow>
        retention_time ti \<noteq> ''n/a''
        \<and> (\<exists>d. strptime W (retention_time ti) tape_time_format = Some d
             \<and> of_int (py_int_of (timestamp d)) < timestamp (now W)))
   \<and> (dt_microsecond d = 0 \<longrightarrow> of_int (py_int_of (timestamp d)) = timestamp d)"
proof (intro conjI impI)
  assume a: "3 \<le> i \<and> \<not> is_separator_line l \<and> rl_tape_of_line l = Some ti
      \<and> check_retention_date W ti = Inr c"
  then have "3 \<le> i" and "\<not> is_separator_line l" and "rl_tape_of_line l = Some ti"
    by simp_all
  from get_tapes_by_pool_loop_record [OF this, of W ls acc] a
  show "get_tapes_by_pool_loop W (l # ls) i acc =
        get_tapes_by_pool_loop W ls (Suc i)
          (acc @ (if barcode ti = ''TEST01L5'' then [ti] else [])
               @ (if contains ''RL'' (state ti) \<and> c then [ti] else []))"
    by (simp add: reset_check_state_iff)
next
  show "check_retention_date W ti = Inr True \<longleftrightarrow>
        retention_time ti \<noteq> ''n/a''
        \<and> (\<exists>d. strptime W (retention_time ti) tape_time_format = Some d
             \<and> of_int (py_int_of (timestamp d)) < timestamp (now W))"
    by (rule check_retention_date_iff)
next
  assume "dt_microsecond d = 0"
  then show "of_int (py_int_of (timestamp d)) = timestamp d"
    by (rule timestamp_whole_second)
qed

lemma test_line_record: "rl_tape_of_line (test_barcode_listing ! 3) = Some test_barcode_tape"
  by (simp add: test_barcode_listing_def rl_tape_of_line_def strip_def is_space_def
      test_barcode_tape_def)

lemma test_line_not_separator: "\<not> is_separator_line (test_barcode_listing ! 3)"
  by (simp add: test_barcode_listing_def is_separator_line_def count_hyphen_0_2_def)

lemma test_tape_not_expired: "check_retention_date world0 test_barcode_tape = Inr False"
  by (simp add: check_retention_date_def test_barcode_tape_def)

theorem reclaim_selection_step_witness:
  "\<not> contains ''RL'' (state test_barcode_tape)
   \<and> check_retention_date world0 test_barcode_tape = Inr False
   \<and> get_tapes_by_pool_loop world0
        [test_barcode_listing ! 0, test_barcode_listing ! 1, test_barcode_listing ! 2,
         test_barcode_listing ! 3] 0 [] = ([test_barcode_tape], None)"
proof -
  have n: "\<not> contains ''RL'' (state test_barcode_tape)"
    by (simp add: test_barcode_tape_def)
  have b: "barcode test_barcode_tape = ''TEST01L5''"
    by (simp add: test_barcode_tape_def)
  from reclaim_selection_step [where i = 3 and l = "test_barcode_listing ! 3"
      and ti = test_barcode_tape and W = world0 and c = False and ls = "[]" and acc = "[]",
      THEN conjunct1]
    test_line_not_separator test_line_record test_tape_not_expired
  have "get_tapes_by_pool_loop world0 [test_barcode_listing ! 3] 3 [] =
        get_tapes_by_pool_loop world0 [] (Suc 3)
          ([] @ (if barcode test_barcode_tape = ''TEST01L5'' then [test_barcode_tape] else [])
              @ (if contains ''RL'' (state test_barcode_tape) \<and> False
                 then [test_barcode_tape] else []))"
    by simp
  with b have "get_tapes_by_pool_loop world0 [test_barcode_listing ! 3] 3 []
      = ([test_barcode_tape], None)"
    by simp
  then have "get_tapes_by_pool_loop world0
        [test_barcode_listing ! 0, test_barcode_listing ! 1, test_barcode_listing ! 2,
         test_barcode_listing ! 3] 0 [] = ([test_barcode_tape], None)"
    by (simp add: get_tapes_by_pool_loop_header numeral_3_eq_3)
  with n test_tape_not_expired show ?thesis by simp
qed

section \<open>Failure isolation in the batch loops\<close>

lemma apply_retention_lock_loop_all:
  "\<forall>t \<in> set tapes. \<exists>r. snd (set_retention_lock W self t) = Inr r \<Longrightarrow>
   apply_retention_lock_loop W self tapes res =
     Inr (res @ map barcode (filter (\<lambda>t. snd (set_retention_lock W self t) = Inr True) tapes))"
proof (induction tapes arbitrary: res)
  case Nil
  then show ?case by simp
next
  case (Cons t tapes)
  from Cons.prems obtain r where r: "snd (set_retention_lock W self t) = Inr r"
    by auto
  from Cons.prems have rest: "\<forall>t \<in> set tapes. \<exists>r. snd (set_retention_lock W self t) = Inr r"
    by simp
  from Cons.IH [OF rest] r show ?case
    by simp
qed

lemma apply_retention_lock_loop_raises:
  "snd (set_retention_lock W self t) = Inl e \<Longrightarrow>
   apply_retention_lock_loop W self (t # tapes) res = Inl e"
  by simp

lemma reclaim_tape_isl:
  "isl (reclaim_tape W self t b) = isl (reclaim_tape W self t empty_buckets)"
  by (simp add: reclaim_tape_def split: sum.splits)

lemma reclaim_tape_records:
  assumes "reclaim_tape W self t b = Inr b'"
  shows "bucket_count b' = Suc (bucket_count b) \<and> recorded b' t
         \<and> (\<forall>u. recorded b u \<longrightarrow> recorded b' u)"
  using assms
  by (auto simp: reclaim_tape_def bucket_count_def recorded_def split: sum.splits if_splits)

lemma remove_loop_all:
  "\<forall>t \<in> set tapes. \<not> isl (reclaim_tape W self t empty_buckets) \<Longrightarrow>
   \<exists>b'. remove_loop W self tapes b = Inr b' \<and> (\<forall>t \<in> set tapes. recorded b' t)
        \<and> (\<forall>u. recorded b u \<longrightarrow> recorded b' u)
        \<and> bucket_count b' = bucket_count b + length tapes"
proof (induction tapes arbitrary: b)
  case Nil
  then show ?case by simp
next
  case (Cons t tapes)
  from Cons.prems have "\<not> isl (reclaim_tape W self t empty_buckets)" by simp
  then have "\<not> isl (reclaim_tape W self t b)"
    by (simp add: reclaim_tape_isl [of W self t b])
  then obtain b1 where b1: "reclaim_tape W self t b = Inr b1"
    by (cases "reclaim_tape W self t b") simp_all
  note r1 = reclaim_tape_records [OF b1]
  from Cons.prems have "\<forall>t \<in> set tapes. \<not> isl (reclaim_tape W self t empty_buckets)"
    by simp
  from Cons.IH [OF this, of b1] obtain b' where b': "remove_loop W self tapes b1 = Inr b'
      \<and> (\<forall>t \<in> set tapes. recorded b' t) \<and> (\<forall>u. recorded b1 u \<longrightarrow> recorded b' u)
      \<and> bucket_count b' = bucket_count b1 + length tapes" ..
  from b1 b' have l: "remove_loop W self (t # tapes) b = Inr b'" by simp
  from r1 b' have a: "\<forall>t \<in> set (t # tapes). recorded b' t" by simp
  from r1 b' have m: "\<forall>u. recorded b u \<longrightarrow> recorded b' u" by simp
  from r1 b' have c: "bucket_count b' = bucket_count b + length (t # tapes)" by simp
  from l a m c have "remove_loop W self (t # tapes) b = Inr b'
      \<and> (\<forall>t \<in> set (t # tapes). recorded b' t) \<and> (\<forall>u. recorded b u \<longrightarrow> recorded b' u)
      \<and> bucket_count b' = bucket_count b + length (t # tapes)"
    by (intro conjI)
  then show ?case ..
qed

lemma apply_retention_lock_loop_append:
  "\<forall>t \<in> set pre. \<exists>r. snd (set_retention_lock W self t) = Inr r \<Longrightarrow>
   apply_retention_lock_loop W self (pre @ rest) res =
     apply_retention_lock_loop W self rest
       (res @ map barcode (filter (\<lambda>t. snd (set_retention_lock W self t) = Inr True) pre))"
proof (induction pre arbitrary: res)
  case Nil
  then show ?case by simp
next
  case (Cons t pre)
  from Cons.prems obtain r where r: "snd (set_retention_lock W self t) = Inr r"
    by auto
  from Cons.prems have rest: "\<forall>t \<in> set pre. \<exists>r. snd (set_retention_lock W self t) = Inr r"
    by simp
  from Cons.IH [OF rest] r show ?case
    by simp
qed

lemma apply_retention_lock_loop_exception:
  assumes "\<forall>t \<in> set pre. \<exists>r. snd (set_retention_lock W self t) = Inr r"
    and "snd (set_retention_lock W self t) = Inl e"
  shows "apply_retention_lock_loop W self (pre @ t # post) res = Inl e"
  using apply_retention_lock_loop_append [OF assms(1), of "t # post" res] assms(2)
  by simp

lemma reclaim_tape_Inl:
  "reclaim_tape W self t b = Inl e \<longleftrightarrow> reclaim_tape W self t empty_buckets = Inl e"
  by (simp add: reclaim_tape_def split: sum.splits)

lemma remove_loop_append:
  "\<forall>t \<in> set pre. \<not> isl (reclaim_tape W self t empty_buckets) \<Longrightarrow>
   \<exists>b1. remove_loop W self (pre @ rest) b = remove_loop W self rest b1"
proof (induction pre arbitrary: b)
  case Nil
  have "remove_loop W self ([] @ rest) b = remove_loop W self rest b" by simp
  then show ?case ..
next
  case (Cons t pre)
  from Cons.prems have "\<not> isl (reclaim_tape W self t empty_buckets)" by simp
  then have "\<not> isl (reclaim_tape W self t b)"
    by (simp add: reclaim_tape_isl [of W self t b])
  then obtain b0 where b0: "reclaim_tape W self t b = Inr b0"
    by (cases "reclaim_tape W self t b") simp_all
  from Cons.prems have "\<forall>t \<in> set pre. \<not> isl (reclaim_tape W self t empty_buckets)"
    by simp
  from Cons.IH [OF this, of b0] obtain b1 where
    "remove_loop W self (pre @ rest) b0 = remove_loop W self rest b1" ..
  with b0 have "remove_loop W self ((t # pre) @ rest) b = remove_loop W self rest b1"
    by simp
  then show ?case ..
qed

lemma remove_loop_exception:
  assumes "\<forall>t \<in> set pre. \<not> isl (reclaim_tape W self t empty_buckets)"
    and "reclaim_tape W self t empty_buckets = Inl e"
  shows "remove_loop W self (pre @ t # post) b = Inl e"
proof -
  from remove_loop_append [OF assms(1), of "t # post" b] obtain b1 where
    b1: "remove_loop W self (pre @ t # post) b = remove_loop W self (t # post) b1" ..
  from assms(2) have "reclaim_tape W self t b1 = Inl e"
    by (simp add: reclaim_tape_Inl [of W self t b1])
  with b1 show ?thesis by simp
qed

text \<open>
  C3 (amended). In either workflow a failure that a tape's processing reports through
  its result does not stop the batch: when no tape's processing raises, the lock
  loop returns the barcodes of exactly the tapes whose lock was confirmed, and the
  reclaim loop gives every tape of the batch an outcome, one entry per tape. An
  exception raised while a tape is processed is not caught by the batch loop: when
  the tapes before it returned results, the loop ends with that exception and the
  tapes after it are not processed.
\<close>

theorem reported_failures_do_not_stop_batch:
  "((\<forall>t \<in> set tapes. \<exists>r. snd (set_retention_lock W self t) = Inr r) \<longrightarrow>
      apply_retention_lock_loop W self tapes [] =
        Inr (map barcode (filter (\<lambda>t. snd (set_retention_lock W self t) = Inr True) tapes)))
   \<and> ((\<forall>t \<in> set rtapes. \<not> isl (reclaim_tape W rself t empty_buckets)) \<longrightarrow>
        (\<exists>b'. remove_loop W rself rtapes empty_buckets = Inr b'
              \<and> (\<forall>t \<in> set rtapes. recorded b' t)
              \<and> bucket_count b' = length rtapes))
   \<and> ((\<forall>t \<in> set pre. \<exists>r. snd (set_retention_lock W self t) = Inr r)
        \<and> snd (set_retention_lock W self bad) = Inl e \<longrightarrow>
        apply_retention_lock_loop W self (pre @ bad # post) [] = Inl e)
   \<and> ((\<forall>t \<in> set rpre. \<not> isl (reclaim_tape W rself t empty_buckets))
        \<and> reclaim_tape W rself rbad empty_buckets = Inl e \<longrightarrow>
        remove_loop W rself (rpre @ rbad # rpost) empty_buckets = Inl e)"
proof (intro conjI impI)
  assume "\<forall>t \<in> set tapes. \<exists>r. snd (set_retention_lock W self t) = Inr r"
  from apply_retention_lock_loop_all [OF this, of "[]"]
  show "apply_retention_lock_loop W self tapes [] =
        Inr (map barcode (filter (\<lambda>t. snd (set_retention_lock W self t) = Inr True) tapes))"
    by simp
next
  assume "\<forall>t \<in> set rtapes. \<not> isl (reclaim_tape W rself t empty_buckets)"
  from remove_loop_all [OF this, of empty_buckets] obtain b' where
    b': "remove_loop W rself rtapes empty_buckets = Inr b'
        \<and> (\<forall>t \<in> set rtapes. recorded b' t)
        \<and> (\<forall>u. recorded empty_buckets u \<longrightarrow> recorded b' u)
        \<and> bucket_count b' = bucket_count empty_buckets + length rtapes" ..
  have "bucket_count empty_buckets = 0"
    by (simp add: bucket_count_def empty_buckets_def)
  with b' have "remove_loop W rself rtapes empty_buckets = Inr b'
              \<and> (\<forall>t \<in> set rtapes. recorded b' t)
              \<and> bucket_count b' = length rtapes"
    by simp
  then show "\<exists>b'. remove_loop W rself rtapes empty_buckets = Inr b'
              \<and> (\<forall>t \<in> set rtapes. recorded b' t)
              \<and> bucket_count b' = length rtapes" ..
next
  assume a: "(\<forall>t \<in> set pre. \<exists>r. snd (set_retention_lock W self t) = Inr r)
        \<and> snd (set_retention_lock W self bad) = Inl e"
  then have "\<forall>t \<in> set pre. \<exists>r. snd (set_retention_lock W self t) = Inr r"
    and "snd (set_retention_lock W self bad) = Inl e"
    by simp_all
  then show "apply_retention_lock_loop W self (pre @ bad # post) [] = Inl e"
    by (rule apply_retention_lock_loop_exception)
next
  assume a: "(\<forall>t \<in> set rpre. \<not> isl (reclaim_tape W rself t empty_buckets))
        \<and> reclaim_tape W rself rbad empty_buckets = Inl e"
  then have "\<forall>t \<in> set rpre. \<not> isl (reclaim_tape W rself t empty_buckets)"
    and "reclaim_tape W rself rbad empty_buckets = Inl e"
    by simp_all
  then show "remove_loop W rself (rpre @ rbad # rpost) empty_buckets = Inl e"
    by (rule remove_loop_exception)
qed

lemma example_period: "retention_lock_period example_open_system = Some ''2year''"
  by (simp add: retention_lock_period_def example_open_system_def str_int_2)

lemma first_status_query:
  "execute_ssh_command status_query_fails_world (show_tape_command example_tape) = SshFalse"
  by (simp add: execute_ssh_command_def status_query_fails_world_def show_tape_command_def
      example_tape_def)

lemma second_status_query:
  "execute_ssh_command status_query_fails_world (show_tape_command second_tape)
     = SshOutput locked_status_output"
  by (simp add: execute_ssh_command_def status_query_fails_world_def show_tape_command_def
      second_tape_def)
    (simp add: locked_status_output_def strip_def is_space_def)

lemma locked_status_parsed:
  "format_tape_data (SshOutput locked_status_output) =
     [\<lparr>f_barcode = ''A55005LA'', f_pool_name = ''POOL'', f_state = ''RO/RL*'',
       f_size = ''5 GiB'', f_used = ''40.0 %'', f_modification_time = ''2025/02/17 10:00:00''\<rparr>]"
  by (simp add: locked_status_output_def count_hyphen_0_2_def strip_def is_space_def Let_def)

lemma first_tape_raises:
  "snd (set_retention_lock status_query_fails_world example_open_system example_tape)
     = Inl IndexError"
  by (simp add: set_retention_lock_def example_period first_status_query)

lemma second_tape_locked:
  "snd (set_retention_lock status_query_fails_world example_open_system second_tape) = Inr True"
  by (simp add: set_retention_lock_def example_period second_status_query locked_status_parsed
      del: format_tape_data.simps)

text \<open>
  The claim as stated fails for an exception: when the status query for the first
  tape fails, \<^verbatim>\<open>updated_info[0]\<close> raises IndexError, the loop ends with that exception,
  and the second tape, whose lock would have been confirmed, is never processed.
\<close>

theorem exception_stops_batch_counterexample:
  "snd (set_retention_lock status_query_fails_world example_open_system second_tape) = Inr True
   \<and> apply_retention_lock_loop status_query_fails_world example_open_system [second_tape] []
       = Inr [''A55005LA'']
   \<and> apply_retention_lock_loop status_query_fails_world example_open_system
        [example_tape, second_tape] [] = Inl IndexError"
  using first_tape_raises second_tape_locked
  by (simp add: second_tape_def)

lemma refused_first_query:
  "execute_ssh_command lock_refused_world (show_tape_command example_tape)
     = SshOutput unlocked_status_output"
  by (simp add: execute_ssh_command_def lock_refused_world_def show_tape_command_def
      example_tape_def)
    (simp add: unlocked_status_output_def strip_def is_space_def)

lemma refused_second_query:
  "execute_ssh_command lock_refused_world (show_tape_command second_tape)
     = SshOutput locked_status_output"
  by (simp add: execute_ssh_command_def lock_refused_world_def show_tape_command_def
      second_tape_def)
    (simp add: locked_status_output_def strip_def is_space_def)

lemma unlocked_status_parsed:
  "format_tape_data (SshOutput unlocked_status_output) =
     [\<lparr>f_barcode = ''A55004LA'', f_pool_name = ''POOL'', f_state = ''RW'',
       f_size = ''5 GiB'', f_used = ''12.5 %'', f_modification_time = ''2025/02/17 09:30:00''\<rparr>]"
  by (simp add: unlocked_status_output_def count_hyphen_0_2_def strip_def is_space_def Let_def)

lemma refused_first_tape:
  "snd (set_retention_lock lock_refused_world example_open_system example_tape) = Inr False"
  by (simp add: set_retention_lock_def example_period refused_first_query
      unlocked_status_parsed del: format_tape_data.simps)

lemma refused_second_tape:
  "snd (set_retention_lock lock_refused_world example_open_system second_tape) = Inr True"
  by (simp add: set_retention_lock_def example_period refused_second_query
      locked_status_parsed del: format_tape_data.simps)

lemma vault_tape_reclaim:
  "reclaim_tape world0 example_reset vault_tape b =
     Inr (b\<lparr>failed_tape_while_export := failed_tape_while_export b @ [vault_tape]\<rparr>)"
  by (simp add: reclaim_tape_def run_nsrmm_command_def world0_def export_tape_from_library_def
      vault_tape_def library_name_of_def split: option.splits)

lemma example_rl_tape_reclaim:
  "reclaim_tape world0 example_reset example_rl_tape b =
     Inr (b\<lparr>created_tapes := created_tapes b @ [''A55157LA'']\<rparr>)"
  by (simp add: reclaim_tape_def world0_def example_reset_def
      example_rl_tape_def run_nsrmm_command_def export_tape_from_library_def
      search_slot_number_def trailing_digits_def library_name_of_def execute_ssh_command_def
      strip_def execute_tape_remove_commmand_def create_tape_def split_ws_def is_space_def
      decimal_int_def digit_of_def import_tape_from_library_def label_tape_def
      run_nsrjb_command_def)

lemma fractional_size_tape_reclaim:
  "reclaim_tape world0 example_reset fractional_size_tape empty_buckets = Inl ValueError"
  by (simp add: reclaim_tape_def world0_def example_reset_def
      fractional_size_tape_def run_nsrmm_command_def export_tape_from_library_def
      search_slot_number_def trailing_digits_def library_name_of_def execute_ssh_command_def
      strip_def execute_tape_remove_commmand_def create_tape_def split_ws_def is_space_def
      decimal_int_def digit_of_def)

theorem reported_failures_do_not_stop_batch_witness:
  "snd (set_retention_lock lock_refused_world example_open_system example_tape) = Inr False
   \<and> apply_retention_lock_loop lock_refused_world example_open_system
        [example_tape, second_tape] [] = Inr [''A55005LA'']
   \<and> remove_loop world0 example_reset [vault_tape, example_rl_tape] empty_buckets
       = Inr (empty_buckets\<lparr>created_tapes := [''A55157LA''],
                failed_tape_while_export := [vault_tape]\<rparr>)
   \<and> (\<exists>b'. remove_loop world0 example_reset [vault_tape, example_rl_tape] empty_buckets = Inr b'
           \<and> recorded b' vault_tape \<and> recorded b' example_rl_tape \<and> bucket_count b' = 2)
   \<and> apply_retention_lock_loop status_query_fails_world example_open_system
        [second_tape, example_tape, second_tape] [] = Inl IndexError
   \<and> remove_loop world0 example_reset
        [example_rl_tape, fractional_size_tape, example_rl_tape] empty_buckets = Inl ValueError"
proof -
  have h1: "\<forall>t \<in> set [example_tape, second_tape].
      \<exists>r. snd (set_retention_lock lock_refused_world example_open_system t) = Inr r"
    using refused_first_tape refused_second_tape by auto
  from reported_failures_do_not_stop_batch [where W = lock_refused_world
      and self = example_open_system and tapes = "[example_tape, second_tape]",
      THEN conjunct1] h1
  have "apply_retention_lock_loop lock_refused_world example_open_system
      [example_tape, second_tape] [] =
        Inr (map barcode (filter (\<lambda>t. snd (set_retention_lock lock_refused_world
          example_open_system t) = Inr True) [example_tape, second_tape]))"
    by (rule mp)
  with refused_first_tape refused_second_tape
  have a: "apply_retention_lock_loop lock_refused_world example_open_system
        [example_tape, second_tape] [] = Inr [''A55005LA'']"
    by (simp add: second_tape_def)
  have b: "remove_loop world0 example_reset [vault_tape, example_rl_tape] empty_buckets
       = Inr (empty_buckets\<lparr>created_tapes := [''A55157LA''],
                failed_tape_while_export := [vault_tape]\<rparr>)"
    by (simp add: vault_tape_reclaim example_rl_tape_reclaim empty_buckets_def)
  have h2: "\<forall>t \<in> set [vault_tape, example_rl_tape].
      \<not> isl (reclaim_tape world0 example_reset t empty_buckets)"
    by (simp add: vault_tape_reclaim example_rl_tape_reclaim)
  from reported_failures_do_not_stop_batch [where W = world0 and rself = example_reset
      and rtapes = "[vault_tape, example_rl_tape]", THEN conjunct2, THEN conjunct1] h2
  have "\<exists>b'. remove_loop world0 example_reset [vault_tape, example_rl_tape] empty_buckets = Inr b'
              \<and> (\<forall>t \<in> set [vault_tape, example_rl_tape]. recorded b' t)
              \<and> bucket_count b' = length [vault_tape, example_rl_tape]"
    by (rule mp)
  then have c: "\<exists>b'. remove_loop world0 example_reset [vault_tape, example_rl_tape] empty_buckets
           = Inr b'
           \<and> recorded b' vault_tape \<and> recorded b' example_rl_tape \<and> bucket_count b' = 2"
    by (simp add: numeral_2_eq_2)
  have h3: "(\<forall>t \<in> set [second_tape].
        \<exists>r. snd (set_retention_lock status_query_fails_world example_open_system t) = Inr r)
      \<and> snd (set_retention_lock status_query_fails_world example_open_system example_tape)
          = Inl IndexError"
    using second_tape_locked first_tape_raises by auto
  from reported_failures_do_not_stop_batch [where W = status_query_fails_world
      and self = example_open_system and pre = "[second_tape]" and bad = example_tape
      and e = IndexError and post = "[second_tape]",
      THEN conjunct2, THEN conjunct2, THEN conjunct1] h3
  have "apply_retention_lock_loop status_query_fails_world example_open_system
        ([second_tape] @ example_tape # [second_tape]) [] = Inl IndexError"
    by (rule mp)
  then have d: "apply_retention_lock_loop status_query_fails_world example_open_system
        [second_tape, example_tape, second_tape] [] = Inl IndexError"
    by simp
  have h4: "(\<forall>t \<in> set [example_rl_tape].
        \<not> isl (reclaim_tape world0 example_reset t empty_buckets))
      \<and> reclaim_tape world0 example_reset fractional_size_tape empty_buckets = Inl ValueError"
    by (simp add: example_rl_tape_reclaim fractional_size_tape_reclaim)
  from reported_failures_do_not_stop_batch [where W = world0 and rself = example_reset
      and rpre = "[example_rl_tape]" and rbad = fractional_size_tape and e = ValueError
      and rpost = "[example_rl_tape]",
      THEN conjunct2, THEN conjunct2, THEN conjunct2] h4
  have "remove_loop world0 example_reset
        ([example_rl_tape] @ fractional_size_tape # [example_rl_tape]) empty_buckets
        = Inl ValueError"
    by (rule mp)
  then have f: "remove_loop world0 example_reset
        [example_rl_tape, fractional_size_tape, example_rl_tape] empty_buckets = Inl ValueError"
    by simp
  from refused_first_tape a b c d f show ?thesis
    by (intro conjI)
qed

end
